theory Spec2Isabelle
  imports Complex_Main
begin

section \<open>Cross-validation engine of clinica: \<open>validation.py\<close>\<close>

text \<open>
  The module is Python 2 source (it uses the \<open>print\<close> statement and has no
  \<open>from __future__ import division\<close>), so \<open>/\<close> between two \<open>int\<close> values is floor
  division. Floating-point values are idealised as real numbers together with one
  not-a-number value; rounding is not modelled.
\<close>

subsection \<open>Values\<close>

datatype py_error =
    ZeroDivisionError
  | KeyError string
  | IndexError
  | TypeError
  | ValueError string
  | AttributeError
  | Exception string
  | Raised string

text \<open>
  \<open>Exception msg\<close> is the bare \<open>Exception\<close> that \<open>save_results\<close> raises itself;
  \<open>Raised msg\<close> is whatever the caller's model selector raised.
\<close>

datatype pyfloat = Fin real | NaN

datatype pyval =
    PyFloat pyfloat
  | PyArray "int list"
  | PyDict "(string \<times> pyval) list"

type_synonym fold_result = "(string \<times> pyval) list"

definition bind_err :: "'e + 'a \<Rightarrow> ('a \<Rightarrow> 'e + 'b) \<Rightarrow> 'e + 'b" where
  "bind_err m f = (case m of Inl e \<Rightarrow> Inl e | Inr x \<Rightarrow> f x)"

definition getitem :: "(string \<times> pyval) list \<Rightarrow> string \<Rightarrow> py_error + pyval" where
  \<comment> \<open>\<open>d[k]\<close> on a dict\<close>
  "getitem d k = (case map_of d k of None \<Rightarrow> Inl (KeyError k) | Some v \<Rightarrow> Inr v)"

fun as_array :: "pyval \<Rightarrow> py_error + int list" where
  "as_array (PyArray xs) = Inr xs"
| "as_array _ = Inl TypeError"

fun as_dict :: "pyval \<Rightarrow> py_error + (string \<times> pyval) list" where
  "as_dict (PyDict d) = Inr d"
| "as_dict _ = Inl TypeError"

fun as_float :: "pyval \<Rightarrow> py_error + pyfloat" where
  "as_float (PyFloat x) = Inr x"
| "as_float _ = Inl TypeError"

subsection \<open>Floating-point operations of numpy used by the module\<close>

fun fsub :: "pyfloat \<Rightarrow> pyfloat \<Rightarrow> pyfloat" where
  "fsub (Fin a) (Fin b) = Fin (a - b)"
| "fsub _ _ = NaN"

fun fmul :: "pyfloat \<Rightarrow> pyfloat \<Rightarrow> pyfloat" where
  "fmul (Fin a) (Fin b) = Fin (a * b)"
| "fmul _ _ = NaN"

fun fpow2 :: "pyfloat \<Rightarrow> pyfloat" where
  "fpow2 (Fin a) = Fin (a ^ 2)"
| "fpow2 NaN = NaN"

fun np_divide :: "pyfloat \<Rightarrow> real \<Rightarrow> pyfloat" where
  \<comment> \<open>numpy scalar division warns instead of raising; the non-finite quotient is \<open>NaN\<close> here\<close>
  "np_divide (Fin a) d = (if d = 0 then NaN else Fin (a / d))"
| "np_divide NaN d = NaN"

definition np_mean :: "real list \<Rightarrow> pyfloat" where
  "np_mean xs = (if xs = [] then NaN else Fin (sum_list xs / real (length xs)))"

fun finite_values :: "pyfloat list \<Rightarrow> real list option" where
  "finite_values [] = Some []"
| "finite_values (Fin a # xs) = map_option ((#) a) (finite_values xs)"
| "finite_values (NaN # xs) = None"

definition np_linalg_norm :: "pyfloat list \<Rightarrow> pyfloat" where
  \<comment> \<open>Frobenius norm of a \<open>(J, 1)\<close> array\<close>
  "np_linalg_norm xs =
     (case finite_values xs of
        None \<Rightarrow> NaN
      | Some vs \<Rightarrow> Fin (sqrt (sum_list (map (\<lambda>v. v ^ 2) vs))))"

subsection \<open>The model selector and the worker pool\<close>

type_synonym partition = "nat list \<times> nat list"

record ('c, 'p) ml_algorithm =
  evaluate :: "nat list \<Rightarrow> nat list \<Rightarrow> py_error + fold_result"
  apply_best_parameters :: "fold_result list \<Rightarrow> py_error + 'c \<times> 'p"

fun dispatch :: "partition list \<Rightarrow> nat list \<Rightarrow> py_error + (nat \<times> partition) list" where
  \<comment> \<open>the loop \<open>async_result[i] = async_pool.apply_async(evaluate, self._cv[i])\<close>\<close>
  "dispatch cv [] = Inr []"
| "dispatch cv (i # is) =
     (if i < length cv
      then bind_err (dispatch cv is) (\<lambda>tasks. Inr ((i, cv ! i) # tasks))
      else Inl IndexError)"

definition complete_task ::
  "(nat list \<Rightarrow> nat list \<Rightarrow> py_error + fold_result) \<Rightarrow> (nat \<times> partition) list \<Rightarrow> nat \<Rightarrow>
   (nat \<rightharpoonup> py_error + fold_result) \<Rightarrow> (nat \<rightharpoonup> py_error + fold_result)" where
  \<comment> \<open>a worker finishes task \<open>j\<close> and stores its outcome in that task's own result object\<close>
  "complete_task f tasks j slots =
     (case map_of tasks j of
        None \<Rightarrow> slots
      | Some (train_index, test_index) \<Rightarrow> slots(j \<mapsto> f train_index test_index))"

definition pool_join ::
  "(nat list \<Rightarrow> nat list \<Rightarrow> py_error + fold_result) \<Rightarrow> nat list \<Rightarrow> (nat \<times> partition) list \<Rightarrow>
   (nat \<rightharpoonup> py_error + fold_result) option" where
  \<comment> \<open>\<open>async_pool.close(); async_pool.join()\<close>. The list \<open>sched\<close> is the order in which the
      workers finish tasks; \<open>join\<close> returns once every dispatched task has finished and
      blocks for ever (\<open>None\<close>) when one never does.\<close>
  "pool_join f sched tasks =
     (if list_all (\<lambda>(i, a). i \<in> set sched) tasks
      then Some (fold (complete_task f tasks) sched Map.empty)
      else None)"

function str_nat :: "nat \<Rightarrow> string" where
  \<comment> \<open>\<open>str(i)\<close> for a non-negative \<open>int\<close>\<close>
  "str_nat n =
     (if n < 10 then [char_of (48 + n)]
      else str_nat (n div 10) @ [char_of (48 + n mod 10)])"
  by pat_completeness auto
termination
  by (relation "measure id") auto

declare str_nat.simps [simp del]

fun gather ::
  "(nat \<rightharpoonup> py_error + fold_result) \<Rightarrow> nat list \<Rightarrow> fold_result list \<Rightarrow>
   py_error option \<times> fold_result list" where
  \<comment> \<open>the loop \<open>self._fold_results.append(async_result[i].get())\<close>; \<open>get\<close> re-raises what
      the task raised\<close>
  "gather slots [] acc = (None, acc)"
| "gather slots (i # is) acc =
     (case slots i of
        None \<Rightarrow> (Some (KeyError (str_nat i)), acc)
      | Some (Inl e) \<Rightarrow> (Some e, acc)
      | Some (Inr r) \<Rightarrow> gather slots is (acc @ [r]))"

subsection \<open>\<open>KFoldCV.validate\<close>\<close>

record ('c, 'p) kfold_cv =
  kf_ml_algorithm :: "('c, 'p) ml_algorithm"
  fold_results :: "fold_result list option"
  kf_classifier :: "'c option"
  kf_best_params :: "'p option"
  kf_cv :: "partition list option"

definition kfold_cv_init :: "('c, 'p) ml_algorithm \<Rightarrow> ('c, 'p) kfold_cv" where
  \<comment> \<open>\<open>__init__\<close>: \<open>self._fold_results = []\<close>\<close>
  "kfold_cv_init ml =
     \<lparr> kf_ml_algorithm = ml, fold_results = Some [], kf_classifier = None,
       kf_best_params = None, kf_cv = None \<rparr>"

definition kfold_validate ::
  "('c, 'p) kfold_cv \<Rightarrow> partition list \<Rightarrow> nat \<Rightarrow> nat list \<Rightarrow>
   ((py_error + 'c \<times> 'p \<times> fold_result list) \<times> ('c, 'p) kfold_cv) option" where
  \<comment> \<open>\<open>splits\<close> is the list that \<open>list(skf.split(np.zeros(len(y)), y))\<close> yields in this
      call (scikit-learn draws it at random); \<open>sched\<close> is the completion order of the
      pool's tasks, which stands for the pool of \<open>n_threads\<close> workers.
      \<open>StratifiedKFold\<close> rejects \<open>n_splits < 2\<close>.\<close>
  "kfold_validate self splits n_folds sched =
     (if n_folds < 2 then Some (Inl (ValueError ''n_splits''), self)
      else
        let self1 = self\<lparr>kf_cv := Some splits\<rparr> in
        case dispatch splits [0..<n_folds] of
          Inl e \<Rightarrow> Some (Inl e, self1)
        | Inr tasks \<Rightarrow>
            (case pool_join (evaluate (kf_ml_algorithm self1)) sched tasks of
               None \<Rightarrow> None
             | Some async_result \<Rightarrow>
                 (case fold_results self1 of
                    None \<Rightarrow> Some (Inl AttributeError, self1)
                  | Some old \<Rightarrow>
                      (case gather async_result [0..<n_folds] old of
                         (Some e, acc) \<Rightarrow> Some (Inl e, self1\<lparr>fold_results := Some acc\<rparr>)
                       | (None, acc) \<Rightarrow>
                           let self2 = self1\<lparr>fold_results := Some acc\<rparr> in
                           (case apply_best_parameters (kf_ml_algorithm self2) acc of
                              Inl e \<Rightarrow> Some (Inl e, self2)
                            | Inr (c, p) \<Rightarrow>
                                Some (Inr (c, p, acc),
                                      self2\<lparr>kf_classifier := Some c,
                                             kf_best_params := Some p\<rparr>))))))"

subsection \<open>\<open>RepeatedSplit\<close>\<close>

record ('c, 'p) repeated_split =
  rs_ml_algorithm :: "('c, 'p) ml_algorithm"
  split_results :: "fold_result list option"
  rs_classifier :: "'c option"
  rs_best_params :: "'p option"
  rs_cv :: "partition list option"
  n_iterations :: nat
  test_size :: real
  resampled_t :: "pyfloat option"
  corrected_resampled_t :: "pyfloat option"

definition repeated_split_init ::
  "('c, 'p) ml_algorithm \<Rightarrow> nat \<Rightarrow> real \<Rightarrow> ('c, 'p) repeated_split" where
  \<comment> \<open>\<open>__init__\<close>: \<open>self._split_results = []\<close>\<close>
  "repeated_split_init ml n ts =
     \<lparr> rs_ml_algorithm = ml, split_results = Some [], rs_classifier = None,
       rs_best_params = None, rs_cv = None, n_iterations = n, test_size = ts,
       resampled_t = None, corrected_resampled_t = None \<rparr>"

definition repeated_split_validate ::
  "('c, 'p) repeated_split \<Rightarrow> partition list \<Rightarrow> nat list \<Rightarrow>
   ((py_error + 'c \<times> 'p \<times> fold_result list) \<times> ('c, 'p) repeated_split) option" where
  \<comment> \<open>\<open>splits\<close> is what \<open>list(splits.split(np.zeros(len(y)), y))\<close> yields in this call.
      With no iteration and no result list the selector is handed \<open>None\<close>, which it is
      taken to reject.\<close>
  "repeated_split_validate self splits sched =
     (let self1 = self\<lparr>rs_cv := Some splits\<rparr> in
      case dispatch splits [0..<n_iterations self1] of
        Inl e \<Rightarrow> Some (Inl e, self1)
      | Inr tasks \<Rightarrow>
          (case pool_join (evaluate (rs_ml_algorithm self1)) sched tasks of
             None \<Rightarrow> None
           | Some async_result \<Rightarrow>
               (case split_results self1 of
                  None \<Rightarrow>
                    Some (Inl (if n_iterations self1 = 0 then TypeError else AttributeError),
                          self1)
                | Some old \<Rightarrow>
                    (case gather async_result [0..<n_iterations self1] old of
                       (Some e, acc) \<Rightarrow> Some (Inl e, self1\<lparr>split_results := Some acc\<rparr>)
                     | (None, acc) \<Rightarrow>
                         let self2 = self1\<lparr>split_results := Some acc\<rparr> in
                         (case apply_best_parameters (rs_ml_algorithm self2) acc of
                            Inl e \<Rightarrow> Some (Inl e, self2)
                          | Inr (c, p) \<Rightarrow>
                              Some (Inr (c, p, acc),
                                    self2\<lparr>rs_classifier := Some c,
                                           rs_best_params := Some p\<rparr>))))))"

subsection \<open>\<open>RepeatedSplit.compute_variance\<close>\<close>

definition compute_average_test_error :: "int list \<Rightarrow> int list \<Rightarrow> py_error + int" where
  \<comment> \<open>\<open>len(np.where(y_list != yhat_list)[0])/len(y_list)\<close>: both operands are \<open>int\<close>;
      the two arrays have one shape (the comparison is elementwise)\<close>
  "compute_average_test_error y_list yhat_list =
     (if length y_list = 0 then Inl ZeroDivisionError
      else Inr (int (length (filter (\<lambda>(a, b). a \<noteq> b) (zip y_list yhat_list)))
                 div int (length y_list)))"

definition split_test_error :: "fold_result \<Rightarrow> py_error + real" where
  \<comment> \<open>the right-hand side of the assignment to \<open>test_error_split[i]\<close>\<close>
  "split_test_error r =
     bind_err (getitem r ''y'') (\<lambda>yv.
     bind_err (getitem r ''y_hat'') (\<lambda>hv.
     bind_err (as_array yv) (\<lambda>y_list.
     bind_err (as_array hv) (\<lambda>yhat_list.
     bind_err (compute_average_test_error y_list yhat_list) (\<lambda>q.
     Inr (real_of_int q))))))"

fun test_errors :: "fold_result list \<Rightarrow> py_error + real list" where
  \<comment> \<open>the loop \<open>for i in range(num_split)\<close> filling \<open>test_error_split\<close>\<close>
  "test_errors [] = Inr []"
| "test_errors (r # rs) =
     bind_err (split_test_error r) (\<lambda>e.
     bind_err (test_errors rs) (\<lambda>es. Inr (e # es)))"

definition compute_variance ::
  "('c, 'p) repeated_split \<Rightarrow> (py_error + pyfloat \<times> pyfloat) \<times> ('c, 'p) repeated_split" where
  "compute_variance self =
     (case split_results self of
        None \<Rightarrow> (Inl TypeError, self)
      | Some results \<Rightarrow>
          let num_split = length results in
          (case test_errors results of
             Inl e \<Rightarrow> (Inl e, self)
           | Inr test_error_split \<Rightarrow>
               let average_test_error = np_mean test_error_split;
                   resampled =
                     np_divide
                       (fpow2 (np_linalg_norm
                          (map (\<lambda>x. fsub (Fin x) average_test_error) test_error_split)))
                       (real_of_int (int num_split - 1));
                   self1 = self\<lparr>resampled_t := Some resampled\<rparr>
               in if num_split = 0 then (Inl ZeroDivisionError, self1)
                  else if 1 - test_size self = 0 then (Inl ZeroDivisionError, self1)
                  else
                    let corrected =
                          fmul (Fin (real_of_int (1 div int num_split)
                                     + test_size self / (1 - test_size self)))
                               resampled;
                        self2 = self1\<lparr>corrected_resampled_t := Some corrected\<rparr>
                    in (Inr (resampled, corrected), self2)))"

subsection \<open>Tables and the output directory\<close>

record metrics_row =
  balanced_accuracy :: pyfloat
  auc :: pyfloat
  accuracy :: pyfloat
  sensitivity :: pyfloat
  specificity :: pyfloat
  ppv :: pyfloat
  npv :: pyfloat

datatype metric =
  Balanced_accuracy | Auc | Accuracy | Sensitivity | Specificity | Ppv | Npv

fun col :: "metric \<Rightarrow> metrics_row \<Rightarrow> pyfloat" where
  "col Balanced_accuracy r = balanced_accuracy r"
| "col Auc r = auc r"
| "col Accuracy r = accuracy r"
| "col Sensitivity r = sensitivity r"
| "col Specificity r = specificity r"
| "col Ppv r = ppv r"
| "col Npv r = npv r"

type_synonym subjects_df = "(int \<times> int \<times> int) list"
type_synonym results_df = "metrics_row list"

datatype table = Subjects subjects_df | Results results_df

text \<open>
  The output directory is the list of directories created and the log of the files
  written, oldest first. Failures of the operating system are not modelled, and the
  parent directories that \<open>os.makedirs\<close> creates on the way are not recorded (the module
  never tests one).
\<close>

record fs =
  dirs :: "string list"
  files :: "(string \<times> table) list"

definition path_join :: "string \<Rightarrow> string \<Rightarrow> string" where
  \<comment> \<open>\<open>os.path.join\<close> of two components\<close>
  "path_join a b =
     (if b \<noteq> [] \<and> hd b = CHR ''/'' then b
      else if a = [] \<or> last a = CHR ''/'' then a @ b
      else a @ ''/'' @ b)"

definition path_exists :: "fs \<Rightarrow> string \<Rightarrow> bool" where
  "path_exists f p = (p \<in> set (dirs f) \<or> p \<in> set (map fst (files f)))"

definition ensure_dir :: "string \<Rightarrow> fs \<Rightarrow> fs" where
  \<comment> \<open>\<open>if not path.exists(d): os.makedirs(d)\<close>\<close>
  "ensure_dir d f = (if \<not> path_exists f d then f\<lparr>dirs := dirs f @ [d]\<rparr> else f)"

definition to_csv :: "string \<Rightarrow> table \<Rightarrow> fs \<Rightarrow> fs" where
  "to_csv p t f = f\<lparr>files := files f @ [(p, t)]\<rparr>"

definition pd_concat :: "'a list list \<Rightarrow> py_error + 'a list" where
  \<comment> \<open>\<open>pd.concat\<close> of a list of frames: it refuses the empty list\<close>
  "pd_concat frames =
     (if frames = [] then Inl (ValueError ''No objects to concatenate'')
      else Inr (concat frames))"

definition np_nanmean :: "pyfloat list \<Rightarrow> pyfloat" where
  \<comment> \<open>numpy replaces each NaN by zero, sums, and divides by the number of entries that
      were not NaN; with none left the result is NaN\<close>
  "np_nanmean xs =
     (let arr = map (\<lambda>x. case x of Fin v \<Rightarrow> v | NaN \<Rightarrow> 0) xs;
          cnt = length (filter (\<lambda>x. x \<noteq> NaN) xs)
      in if cnt = 0 then NaN else Fin (sum_list arr / real cnt))"

definition mean_row :: "results_df \<Rightarrow> metrics_row" where
  \<comment> \<open>\<open>df.apply(np.nanmean).to_dict()\<close>: the function applied to each column\<close>
  "mean_row df =
     \<lparr> balanced_accuracy = np_nanmean (map balanced_accuracy df),
       auc = np_nanmean (map auc df),
       accuracy = np_nanmean (map accuracy df),
       sensitivity = np_nanmean (map sensitivity df),
       specificity = np_nanmean (map specificity df),
       ppv = np_nanmean (map ppv df),
       npv = np_nanmean (map npv df) \<rparr>"

definition subjects_frame :: "fold_result \<Rightarrow> py_error + subjects_df" where
  \<comment> \<open>\<open>pd.DataFrame({'y': r['y'], 'y_hat': r['y_hat'], 'y_index': r['y_index']})\<close>\<close>
  "subjects_frame r =
     bind_err (getitem r ''y'') (\<lambda>yv.
     bind_err (getitem r ''y_hat'') (\<lambda>hv.
     bind_err (getitem r ''y_index'') (\<lambda>iv.
     bind_err (as_array yv) (\<lambda>y.
     bind_err (as_array hv) (\<lambda>y_hat.
     bind_err (as_array iv) (\<lambda>y_index.
     if length y = length y_hat \<and> length y_hat = length y_index
     then Inr (zip y (zip y_hat y_index))
     else Inl (ValueError ''arrays must all be same length'')))))))"

definition evaluation_item :: "fold_result \<Rightarrow> string \<Rightarrow> py_error + pyval" where
  \<comment> \<open>\<open>r['evaluation'][k]\<close>\<close>
  "evaluation_item r k =
     bind_err (getitem r ''evaluation'') (\<lambda>ev.
     bind_err (as_dict ev) (\<lambda>d. getitem d k))"

definition results_frame :: "fold_result \<Rightarrow> py_error + metrics_row" where
  \<comment> \<open>the one row of \<open>pd.DataFrame({'balanced_accuracy': r['evaluation'][...], 'auc': r['auc'],
      ...}, index=['i'])\<close>; the items are looked up in the order of the dict display\<close>
  "results_frame r =
     bind_err (evaluation_item r ''balanced_accuracy'') (\<lambda>v1.
     bind_err (getitem r ''auc'') (\<lambda>v2.
     bind_err (evaluation_item r ''accuracy'') (\<lambda>v3.
     bind_err (evaluation_item r ''sensitivity'') (\<lambda>v4.
     bind_err (evaluation_item r ''specificity'') (\<lambda>v5.
     bind_err (evaluation_item r ''ppv'') (\<lambda>v6.
     bind_err (evaluation_item r ''npv'') (\<lambda>v7.
     bind_err (as_float v1) (\<lambda>x1.
     bind_err (as_float v2) (\<lambda>x2.
     bind_err (as_float v3) (\<lambda>x3.
     bind_err (as_float v4) (\<lambda>x4.
     bind_err (as_float v5) (\<lambda>x5.
     bind_err (as_float v6) (\<lambda>x6.
     bind_err (as_float v7) (\<lambda>x7.
     Inr \<lparr> balanced_accuracy = x1, auc = x2, accuracy = x3, sensitivity = x4,
           specificity = x5, ppv = x6, npv = x7 \<rparr>))))))))))))))"

subsection \<open>\<open>KFoldCV.save_results\<close>\<close>

definition no_results_message :: string where
  "no_results_message =
     ''No results to save. Method validate() must be run before save_results().''"

fun save_folds ::
  "string \<Rightarrow> nat \<Rightarrow> fold_result list \<Rightarrow> subjects_df list \<Rightarrow> results_df list \<Rightarrow> fs \<Rightarrow>
   (py_error + subjects_df list \<times> results_df list) \<times> fs" where
  \<comment> \<open>the loop over the folds, from fold \<open>i\<close> on, with the two lists built so far\<close>
  "save_folds container_dir i [] subjects_folds results_folds f =
     (Inr (subjects_folds, results_folds), f)"
| "save_folds container_dir i (r # rs) subjects_folds results_folds f =
     (case subjects_frame r of
        Inl e \<Rightarrow> (Inl e, f)
      | Inr subjects \<Rightarrow>
          let f1 = to_csv (path_join container_dir (''subjects_fold-'' @ str_nat i @ ''.tsv''))
                     (Subjects subjects) f
          in (case results_frame r of
                Inl e \<Rightarrow> (Inl e, f1)
              | Inr row \<Rightarrow>
                  let f2 = to_csv
                        (path_join container_dir (''results_fold-'' @ str_nat i @ ''.tsv''))
                        (Results [row]) f1
                  in save_folds container_dir (Suc i) rs
                       (subjects_folds @ [subjects]) (results_folds @ [[row]]) f2))"

definition write_summary ::
  "string \<Rightarrow> subjects_df list \<Rightarrow> results_df list \<Rightarrow> fs \<Rightarrow> (py_error + unit) \<times> fs" where
  \<comment> \<open>the last three blocks of each \<open>save_results\<close>: \<open>subjects.tsv\<close>, \<open>results.tsv\<close> and
      \<open>mean_results.tsv\<close> of the output directory\<close>
  "write_summary output_dir subjects_list results_list f =
     (case pd_concat subjects_list of
        Inl e \<Rightarrow> (Inl e, f)
      | Inr all_subjects \<Rightarrow>
          let f1 = to_csv (path_join output_dir ''subjects.tsv'') (Subjects all_subjects) f
          in (case pd_concat results_list of
                Inl e \<Rightarrow> (Inl e, f1)
              | Inr all_results \<Rightarrow>
                  let f2 = to_csv (path_join output_dir ''results.tsv'')
                             (Results all_results) f1;
                      mean_results = [mean_row all_results]
                  in (Inr (),
                      to_csv (path_join output_dir ''mean_results.tsv'')
                        (Results mean_results) f2)))"

definition kfold_save_results ::
  "('c, 'p) kfold_cv \<Rightarrow> string \<Rightarrow> fs \<Rightarrow> (py_error + unit) \<times> fs" where
  "kfold_save_results self output_dir f =
     (case fold_results self of
        None \<Rightarrow> (Inl (Exception no_results_message), f)
      | Some results \<Rightarrow>
          let container_dir = path_join output_dir ''folds'';
              f1 = ensure_dir container_dir f
          in (case save_folds container_dir 0 results [] [] f1 of
                (Inl e, f2) \<Rightarrow> (Inl e, f2)
              | (Inr (subjects_folds, results_folds), f2) \<Rightarrow>
                  write_summary output_dir subjects_folds results_folds f2))"

subsection \<open>\<open>RepeatedKFoldCV.save_results\<close>\<close>

record ('c, 'p) repeated_kfold_cv =
  rk_ml_algorithm :: "('c, 'p) ml_algorithm"
  repeated_fold_results :: "fold_result list list option"
  rk_classifier :: "'c option"
  rk_best_params :: "'p option"
  rk_cv :: "partition list list option"

definition repeated_kfold_cv_init :: "('c, 'p) ml_algorithm \<Rightarrow> ('c, 'p) repeated_kfold_cv" where
  \<comment> \<open>\<open>__init__\<close>: \<open>self._repeated_fold_results = []\<close>\<close>
  "repeated_kfold_cv_init ml =
     \<lparr> rk_ml_algorithm = ml, repeated_fold_results = Some [], rk_classifier = None,
       rk_best_params = None, rk_cv = None \<rparr>"

fun save_iterations ::
  "string \<Rightarrow> nat \<Rightarrow> fold_result list list \<Rightarrow> subjects_df list \<Rightarrow> results_df list \<Rightarrow> fs \<Rightarrow>
   (py_error + subjects_df list \<times> results_df list) \<times> fs" where
  \<comment> \<open>the loop over the iterations, from \<open>iteration\<close> on, with \<open>all_subjects_list\<close> and
      \<open>all_results_list\<close> built so far\<close>
  "save_iterations output_dir iteration [] all_subjects_list all_results_list f =
     (Inr (all_subjects_list, all_results_list), f)"
| "save_iterations output_dir iteration (folds # rest) all_subjects_list all_results_list f =
     (let iteration_dir = path_join output_dir (''iteration-'' @ str_nat iteration);
          f1 = ensure_dir iteration_dir f;
          folds_dir = path_join iteration_dir ''folds'';
          f2 = ensure_dir folds_dir f1
      in case save_folds folds_dir 0 folds [] [] f2 of
           (Inl e, f3) \<Rightarrow> (Inl e, f3)
         | (Inr (iteration_subjects_list, iteration_results_list), f3) \<Rightarrow>
             (case pd_concat iteration_subjects_list of
                Inl e \<Rightarrow> (Inl e, f3)
              | Inr iteration_subjects_df \<Rightarrow>
                  let f4 = to_csv (path_join iteration_dir ''subjects.tsv'')
                             (Subjects iteration_subjects_df) f3
                  in (case pd_concat iteration_results_list of
                        Inl e \<Rightarrow> (Inl e, f4)
                      | Inr iteration_results_df \<Rightarrow>
                          let f5 = to_csv (path_join iteration_dir ''results.tsv'')
                                     (Results iteration_results_df) f4;
                              mean_results_df = [mean_row iteration_results_df];
                              f6 = to_csv (path_join iteration_dir ''mean_results.tsv'')
                                     (Results mean_results_df) f5
                          in save_iterations output_dir (Suc iteration) rest
                               (all_subjects_list @ [iteration_subjects_df])
                               (all_results_list @ [mean_results_df]) f6)))"

definition repeated_kfold_save_results ::
  "('c, 'p) repeated_kfold_cv \<Rightarrow> string \<Rightarrow> fs \<Rightarrow> (py_error + unit) \<times> fs" where
  "repeated_kfold_save_results self output_dir f =
     (case repeated_fold_results self of
        None \<Rightarrow> (Inl (Exception no_results_message), f)
      | Some results \<Rightarrow>
          (case save_iterations output_dir 0 results [] [] f of
             (Inl e, f1) \<Rightarrow> (Inl e, f1)
           | (Inr (all_subjects_list, all_results_list), f1) \<Rightarrow>
               write_summary output_dir all_subjects_list all_results_list f1))"

subsection \<open>\<open>RepeatedSplit.save_results\<close>\<close>

fun save_splits ::
  "string \<Rightarrow> nat \<Rightarrow> fold_result list \<Rightarrow> subjects_df list \<Rightarrow> results_df list \<Rightarrow> fs \<Rightarrow>
   (py_error + subjects_df list \<times> results_df list) \<times> fs" where
  \<comment> \<open>the loop over the splits; only the statements that are not commented out\<close>
  "save_splits output_dir iteration [] all_subjects_list all_results_list f =
     (Inr (all_subjects_list, all_results_list), f)"
| "save_splits output_dir iteration (r # rest) all_subjects_list all_results_list f =
     (let iteration_dir = path_join output_dir (''iteration-'' @ str_nat iteration);
          f1 = ensure_dir iteration_dir f
      in case subjects_frame r of
           Inl e \<Rightarrow> (Inl e, f1)
         | Inr iteration_subjects_df \<Rightarrow>
             let f2 = to_csv (path_join iteration_dir ''subjects.tsv'')
                        (Subjects iteration_subjects_df) f1
             in (case results_frame r of
                   Inl e \<Rightarrow> (Inl e, f2)
                 | Inr row \<Rightarrow>
                     let iteration_results_df = [row];
                         f3 = to_csv (path_join iteration_dir ''results.tsv'')
                                (Results iteration_results_df) f2;
                         mean_results_df = [mean_row iteration_results_df];
                         f4 = to_csv (path_join iteration_dir ''mean_results.tsv'')
                                (Results mean_results_df) f3
                     in save_splits output_dir (Suc iteration) rest
                          (all_subjects_list @ [iteration_subjects_df])
                          (all_results_list @ [mean_results_df]) f4))"

definition repeated_split_save_results ::
  "('c, 'p) repeated_split \<Rightarrow> string \<Rightarrow> fs \<Rightarrow> (py_error + unit) \<times> fs" where
  "repeated_split_save_results self output_dir f =
     (case split_results self of
        None \<Rightarrow> (Inl (Exception no_results_message), f)
      | Some results \<Rightarrow>
          (case save_splits output_dir 0 results [] [] f of
             (Inl e, f1) \<Rightarrow> (Inl e, f1)
           | (Inr (all_subjects_list, all_results_list), f1) \<Rightarrow>
               write_summary output_dir all_subjects_list all_results_list f1))"

subsection \<open>Reference notions and sample inputs\<close>

definition sample_variance :: "real list \<Rightarrow> real" where
  \<comment> \<open>the specification's uncorrected resampled variance: the sum of squared deviations
      from the mean, over \<open>J - 1\<close>\<close>
  "sample_variance es =
     (\<Sum>e\<leftarrow>es. (e - sum_list es / real (length es)) ^ 2) / (real (length es) - 1)"

definition predictions :: "int list \<Rightarrow> int list \<Rightarrow> fold_result" where
  \<comment> \<open>a fold result that holds only true and predicted labels\<close>
  "predictions y y_hat = [(''y'', PyArray y), (''y_hat'', PyArray y_hat)]"

definition four_splits :: "fold_result list" where
  \<comment> \<open>four test sets of two samples: the first split predicts both wrongly, the others
      both rightly\<close>
  "four_splits =
     [predictions [0, 1] [1, 0], predictions [0, 1] [0, 1],
      predictions [0, 1] [0, 1], predictions [0, 1] [0, 1]]"

definition exact_test_error :: "int list \<Rightarrow> int list \<Rightarrow> real" where
  \<comment> \<open>the specification's average test error of a partition: the number of samples
      whose prediction differs from the label, over the size of the test set\<close>
  "exact_test_error y_list yhat_list =
     real (length (filter (\<lambda>(a, b). a \<noteq> b) (zip y_list yhat_list))) / real (length y_list)"

definition mixed_splits :: "fold_result list" where
  \<comment> \<open>four test sets of four samples, with two, one, no and three wrong predictions\<close>
  "mixed_splits =
     [predictions [0, 0, 1, 1] [1, 0, 0, 1], predictions [0, 0, 1, 1] [0, 0, 0, 1],
      predictions [0, 0, 1, 1] [0, 0, 1, 1], predictions [0, 0, 1, 1] [1, 1, 0, 1]]"

definition sample_result :: "nat list \<Rightarrow> fold_result" where
  \<comment> \<open>a well-formed fold result for the test set \<open>test_index\<close>: every label is \<open>1\<close> and is
      predicted rightly\<close>
  "sample_result test_index =
     [(''y'', PyArray (map (\<lambda>_. 1) test_index)),
      (''y_hat'', PyArray (map (\<lambda>_. 1) test_index)),
      (''y_index'', PyArray (map int test_index)),
      (''auc'', PyFloat (Fin 1)),
      (''evaluation'', PyDict
         [(''balanced_accuracy'', PyFloat (Fin 1)), (''accuracy'', PyFloat (Fin 1)),
          (''sensitivity'', PyFloat (Fin 1)), (''specificity'', PyFloat NaN),
          (''ppv'', PyFloat (Fin 1)), (''npv'', PyFloat NaN)])]"

definition sample_ml :: "(string, string) ml_algorithm" where
  "sample_ml =
     \<lparr> evaluate = (\<lambda>train_index test_index. Inr (sample_result test_index)),
       apply_best_parameters = (\<lambda>results. Inr (''svc'', ''C=1'')) \<rparr>"

definition leave_one_out :: "nat \<Rightarrow> partition list" where
  \<comment> \<open>\<open>n\<close> partitions of \<open>n\<close> samples: partition \<open>i\<close> tests sample \<open>i\<close> alone\<close>
  "leave_one_out n = map (\<lambda>i. (filter (\<lambda>j. j \<noteq> i) [0..<n], [i])) [0..<n]"

definition failing_ml :: "nat \<Rightarrow> (string, string) ml_algorithm" where
  \<comment> \<open>a selector whose \<open>evaluate\<close> raises on the test set \<open>[k]\<close>\<close>
  "failing_ml k =
     \<lparr> evaluate = (\<lambda>train_index test_index.
          if test_index = [k] then Inl (Raised ''boom'') else Inr (sample_result test_index)),
       apply_best_parameters = (\<lambda>results. Inr (''svc'', ''C=1'')) \<rparr>"

fun non_missing :: "pyfloat list \<Rightarrow> real list" where
  \<comment> \<open>the entries of a column that are not NaN\<close>
  "non_missing [] = []"
| "non_missing (Fin v # xs) = v # non_missing xs"
| "non_missing (NaN # xs) = non_missing xs"

definition empty_fs :: fs where
  "empty_fs = \<lparr> dirs = [], files = [] \<rparr>"

definition other_result :: "nat list \<Rightarrow> fold_result" where
  \<comment> \<open>a well-formed fold result whose sensitivity is missing and whose specificity is not\<close>
  "other_result test_index =
     [(''y'', PyArray (map (\<lambda>_. 0) test_index)),
      (''y_hat'', PyArray (map (\<lambda>_. 1) test_index)),
      (''y_index'', PyArray (map int test_index)),
      (''auc'', PyFloat (Fin (1 / 2))),
      (''evaluation'', PyDict
         [(''balanced_accuracy'', PyFloat (Fin (1 / 2))), (''accuracy'', PyFloat (Fin 0)),
          (''sensitivity'', PyFloat NaN), (''specificity'', PyFloat (Fin (1 / 2))),
          (''ppv'', PyFloat (Fin 0)), (''npv'', PyFloat NaN)])]"

definition new_files :: "fs \<Rightarrow> fs \<Rightarrow> (string \<times> table) list" where
  \<comment> \<open>what was written between the state \<open>f\<close> and the later state \<open>f'\<close>\<close>
  "new_files f f' = drop (length (files f)) (files f')"

definition summary_paths :: "string \<Rightarrow> string list" where
  \<comment> \<open>the three tables of the output directory itself\<close>
  "summary_paths output_dir =
     [path_join output_dir ''subjects.tsv'', path_join output_dir ''results.tsv'',
      path_join output_dir ''mean_results.tsv'']"

definition flat_result :: "nat list \<Rightarrow> fold_result" where
  \<comment> \<open>a fold result that holds the seven metrics as a flat bag\<close>
  "flat_result test_index =
     [(''y'', PyArray (map (\<lambda>_. 1) test_index)),
      (''y_hat'', PyArray (map (\<lambda>_. 1) test_index)),
      (''y_index'', PyArray (map int test_index)),
      (''balanced_accuracy'', PyFloat (Fin 1)), (''auc'', PyFloat (Fin 1)),
      (''accuracy'', PyFloat (Fin 1)), (''sensitivity'', PyFloat (Fin 1)),
      (''specificity'', PyFloat (Fin 1)), (''ppv'', PyFloat (Fin 1)),
      (''npv'', PyFloat (Fin 1))]"

definition two_iterations :: "fold_result list list" where
  "two_iterations =
     [[sample_result [0], other_result [1]], [other_result [0], other_result [1]]]"

definition sample_repeated_kfold :: "(string, string) repeated_kfold_cv" where
  "sample_repeated_kfold =
     (repeated_kfold_cv_init sample_ml)\<lparr>repeated_fold_results := Some two_iterations\<rparr>"

definition sample_repeated_split :: "(string, string) repeated_split" where
  "sample_repeated_split =
     (repeated_split_init sample_ml 2 (3 / 10))
        \<lparr>split_results := Some [sample_result [0], other_result [1]]\<rparr>"

section \<open>Properties\<close>

subsection \<open>Auxiliary facts\<close>

lemma bind_err_simps [simp]:
  "bind_err (Inl e) f = Inl e"
  "bind_err (Inr x) f = f x"
  by (simp_all add: bind_err_def)

lemma bind_err_Inr_iff:
  "bind_err m f = Inr y \<longleftrightarrow> (\<exists>x. m = Inr x \<and> f x = Inr y)"
  by (cases m) simp_all

lemma test_errors_length: "test_errors rs = Inr es \<Longrightarrow> length es = length rs"
  by (induction rs arbitrary: es) (auto simp: bind_err_Inr_iff)

lemma finite_values_deviations:
  "finite_values (map (\<lambda>x. Fin (x - m)) es) = Some (map (\<lambda>x. x - m) es)"
  by (induction es) simp_all

lemma norm_squared:
  "finite_values xs = Some vs \<Longrightarrow>
   fpow2 (np_linalg_norm xs) = Fin (sum_list (map (\<lambda>v. v ^ 2) vs))"
  by (auto simp add: np_linalg_norm_def intro!: sum_list_nonneg)

lemma compute_variance_value:
  assumes "split_results self = Some results"
    and "test_errors results = Inr errs"
    and "1 < length errs"
    and "test_size self \<noteq> 1"
  shows "fst (compute_variance self) =
     Inr (Fin (sample_variance errs),
          Fin ((real_of_int (1 div int (length errs)) + test_size self / (1 - test_size self))
               * sample_variance errs))"
proof -
  have len: "length results = length errs"
    using assms(2) by (simp add: test_errors_length)
  have ne: "errs \<noteq> []" using assms(3) by auto
  have mean: "np_mean errs = Fin (sum_list errs / real (length errs))"
    using ne by (simp add: np_mean_def)
  have norm: "fpow2 (np_linalg_norm (map (\<lambda>x. Fin (x - sum_list errs / real (length errs))) errs))
      = Fin (\<Sum>e\<leftarrow>errs. (e - sum_list errs / real (length errs)) ^ 2)"
    by (simp add: norm_squared [OF finite_values_deviations] comp_def)
  have dn: "real (length errs) - 1 \<noteq> 0" using assms(3) by simp
  show ?thesis
    using assms(1,2,4) ne dn
    by (simp add: compute_variance_def Let_def len mean norm sample_variance_def)
qed

lemma test_errors_four_splits: "test_errors four_splits = Inr [1, 0, 0, 0]"
  by (simp add: four_splits_def predictions_def split_test_error_def getitem_def
      compute_average_test_error_def)

lemma test_errors_mixed_splits: "test_errors mixed_splits = Inr [0, 0, 0, 0]"
  by (simp add: mixed_splits_def predictions_def split_test_error_def getitem_def
      compute_average_test_error_def)

lemma dispatch_in_range:
  "\<forall>i\<in>set is. i < length cv \<Longrightarrow> dispatch cv is = Inr (map (\<lambda>i. (i, cv ! i)) is)"
  by (induction "is") simp_all

lemma dispatch_upt:
  "n \<le> length cv \<Longrightarrow> dispatch cv [0..<n] = Inr (map (\<lambda>i. (i, cv ! i)) [0..<n])"
  by (rule dispatch_in_range) simp

lemma map_of_indexed:
  "map_of (map (\<lambda>i. (i, g i)) xs) j = (if j \<in> set xs then Some (g j) else None)"
  by (induction xs) simp_all

lemma fold_complete_task:
  "fold (complete_task f tasks) sched m j =
     (if j \<in> set sched
      then (case map_of tasks j of None \<Rightarrow> m j | Some (a, b) \<Rightarrow> Some (f a b))
      else m j)"
  by (induction sched arbitrary: m) (auto simp: complete_task_def split: option.splits)

lemma pool_join_upt:
  assumes "{0..<n} \<subseteq> set sched"
  shows "\<exists>slots. pool_join f sched (map (\<lambda>i. (i, cv ! i)) [0..<n]) = Some slots
     \<and> (\<forall>i<n. slots i = Some (f (fst (cv ! i)) (snd (cv ! i))))"
proof -
  have "list_all (\<lambda>(i, a). i \<in> set sched) (map (\<lambda>i. (i, cv ! i)) [0..<n])"
    using assms by (auto simp: list_all_iff)
  then show ?thesis
    using assms
    by (auto simp: pool_join_def fold_complete_task map_of_indexed split: prod.splits)
qed

lemma gather_all:
  "\<forall>i\<in>set is. slots i = Some (Inr (g i)) \<Longrightarrow> gather slots is acc = (None, acc @ map g is)"
  by (induction "is" arbitrary: acc) simp_all

lemma gather_raises:
  "\<forall>i\<in>set pre. slots i = Some (Inr (g i)) \<Longrightarrow> slots k = Some (Inl e) \<Longrightarrow>
   gather slots (pre @ k # post) acc = (Some e, acc @ map g pre)"
  by (induction pre arbitrary: acc) simp_all

lemma upt_split_at: "k < n \<Longrightarrow> [0..<n] = [0..<k] @ k # [Suc k..<n]"
  by (metis less_imp_le_nat upt_add_eq_append upt_conv_Cons zero_le le_add_diff_inverse plus_nat.add_0)

lemma kfold_validate_returns:
  assumes "2 \<le> n" and "n \<le> length splits" and "{0..<n} \<subseteq> set sched"
    and "fold_results self = Some old"
    and "\<forall>i<n. evaluate (kf_ml_algorithm self) (fst (splits ! i)) (snd (splits ! i)) = Inr (g i)"
    and "apply_best_parameters (kf_ml_algorithm self) (old @ map g [0..<n]) = Inr (c, p)"
  shows "kfold_validate self splits n sched =
     Some (Inr (c, p, old @ map g [0..<n]),
           self\<lparr>kf_cv := Some splits, fold_results := Some (old @ map g [0..<n]),
                kf_classifier := Some c, kf_best_params := Some p\<rparr>)"
proof -
  obtain slots where j: "pool_join (evaluate (kf_ml_algorithm self)) sched
        (map (\<lambda>i. (i, splits ! i)) [0..<n]) = Some slots"
    and s: "\<forall>i<n. slots i = Some (evaluate (kf_ml_algorithm self) (fst (splits ! i)) (snd (splits ! i)))"
    using pool_join_upt [OF assms(3)] by blast
  have "\<forall>i\<in>set [0..<n]. slots i = Some (Inr (g i))"
    using s assms(5) by simp
  then have g: "gather slots [0..<n] old = (None, old @ map g [0..<n])"
    by (rule gather_all)
  show ?thesis
    using assms(1,4,6)
    by (simp add: kfold_validate_def Let_def dispatch_upt [OF assms(2)] j g)
qed

lemma kfold_validate_raises:
  assumes "2 \<le> n" and "n \<le> length splits" and "{0..<n} \<subseteq> set sched"
    and "fold_results self = Some old"
    and "k < n"
    and "\<forall>i<k. evaluate (kf_ml_algorithm self) (fst (splits ! i)) (snd (splits ! i)) = Inr (g i)"
    and "evaluate (kf_ml_algorithm self) (fst (splits ! k)) (snd (splits ! k)) = Inl e"
  shows "kfold_validate self splits n sched =
     Some (Inl e, self\<lparr>kf_cv := Some splits, fold_results := Some (old @ map g [0..<k])\<rparr>)"
proof -
  obtain slots where j: "pool_join (evaluate (kf_ml_algorithm self)) sched
        (map (\<lambda>i. (i, splits ! i)) [0..<n]) = Some slots"
    and s: "\<forall>i<n. slots i = Some (evaluate (kf_ml_algorithm self) (fst (splits ! i)) (snd (splits ! i)))"
    using pool_join_upt [OF assms(3)] by blast
  have pre: "\<forall>i\<in>set [0..<k]. slots i = Some (Inr (g i))"
    using s assms(5,6) by simp
  have at: "slots k = Some (Inl e)" using s assms(5,7) by simp
  have g: "gather slots [0..<n] old = (Some e, old @ map g [0..<k])"
    unfolding upt_split_at [OF assms(5)] using pre at by (rule gather_raises)
  show ?thesis
    using assms(1,4)
    by (simp add: kfold_validate_def Let_def dispatch_upt [OF assms(2)] j g)
qed

lemma repeated_split_validate_returns:
  assumes "n_iterations self \<le> length splits" and "{0..<n_iterations self} \<subseteq> set sched"
    and "split_results self = Some old"
    and "\<forall>i<n_iterations self.
           evaluate (rs_ml_algorithm self) (fst (splits ! i)) (snd (splits ! i)) = Inr (g i)"
    and "apply_best_parameters (rs_ml_algorithm self) (old @ map g [0..<n_iterations self])
           = Inr (c, p)"
  shows "repeated_split_validate self splits sched =
     Some (Inr (c, p, old @ map g [0..<n_iterations self]),
           self\<lparr>rs_cv := Some splits,
                split_results := Some (old @ map g [0..<n_iterations self]),
                rs_classifier := Some c, rs_best_params := Some p\<rparr>)"
proof -
  obtain slots where j: "pool_join (evaluate (rs_ml_algorithm self)) sched
        (map (\<lambda>i. (i, splits ! i)) [0..<n_iterations self]) = Some slots"
    and s: "\<forall>i<n_iterations self.
       slots i = Some (evaluate (rs_ml_algorithm self) (fst (splits ! i)) (snd (splits ! i)))"
    using pool_join_upt [OF assms(2)] by blast
  have "\<forall>i\<in>set [0..<n_iterations self]. slots i = Some (Inr (g i))"
    using s assms(4) by simp
  then have g: "gather slots [0..<n_iterations self] old
      = (None, old @ map g [0..<n_iterations self])"
    by (rule gather_all)
  show ?thesis
    using assms(3,5)
    by (simp add: repeated_split_validate_def Let_def dispatch_upt [OF assms(1)] j g)
qed

lemma eval_sample: "evaluate sample_ml a b = Inr (sample_result b)"
  by (simp add: sample_ml_def)

lemma apply_sample: "apply_best_parameters sample_ml rs = Inr (''svc'', ''C=1'')"
  by (simp add: sample_ml_def)

lemma leave_one_out_nth: "i < n \<Longrightarrow> leave_one_out n ! i = (filter (\<lambda>j. j \<noteq> i) [0..<n], [i])"
  by (simp add: leave_one_out_def)

lemma eval_failing:
  "evaluate (failing_ml k) a [i] = (if i = k then Inl (Raised ''boom'') else Inr (sample_result [i]))"
  by (simp add: failing_ml_def)

lemma failing_run:
  assumes "k < n" and "2 \<le> n"
  shows "kfold_validate (kfold_cv_init (failing_ml k)) (leave_one_out n) n [0..<n] =
     Some (Inl (Raised ''boom''),
           (kfold_cv_init (failing_ml k))
             \<lparr>kf_cv := Some (leave_one_out n),
              fold_results := Some ([] @ map (\<lambda>i. sample_result [i]) [0..<k])\<rparr>)"
proof (rule kfold_validate_raises [OF assms(2) _ _ _ assms(1)])
  show "n \<le> length (leave_one_out n)" by (simp add: leave_one_out_def)
  show "{0..<n} \<subseteq> set [0..<n]" by simp
  show "fold_results (kfold_cv_init (failing_ml k)) = Some []"
    by (simp add: kfold_cv_init_def)
  show "\<forall>i<k. evaluate (kf_ml_algorithm (kfold_cv_init (failing_ml k)))
       (fst (leave_one_out n ! i)) (snd (leave_one_out n ! i)) = Inr (sample_result [i])"
    using assms(1) by (simp add: kfold_cv_init_def leave_one_out_nth eval_failing)
  show "evaluate (kf_ml_algorithm (kfold_cv_init (failing_ml k)))
       (fst (leave_one_out n ! k)) (snd (leave_one_out n ! k)) = Inl (Raised ''boom'')"
    using assms(1) by (simp add: kfold_cv_init_def leave_one_out_nth eval_failing)
qed

lemma nanmean_parts:
  "sum_list (map (\<lambda>x. case x of Fin v \<Rightarrow> v | NaN \<Rightarrow> 0) xs) = sum_list (non_missing xs)"
  "length (filter (\<lambda>x. x \<noteq> NaN) xs) = length (non_missing xs)"
  by (induction xs rule: non_missing.induct) simp_all

lemma np_nanmean_skips:
  "non_missing xs \<noteq> [] \<Longrightarrow>
   np_nanmean xs = Fin (sum_list (non_missing xs) / real (length (non_missing xs)))"
  by (simp add: np_nanmean_def nanmean_parts)

lemma col_mean_row: "col m (mean_row df) = np_nanmean (map (col m) df)"
  by (cases m) (simp_all add: mean_row_def cong: map_cong)

lemma save_folds_rows:
  "save_folds d i rs S R f = (Inr (S', R'), f') \<Longrightarrow>
   \<exists>subjects rows. map subjects_frame rs = map Inr subjects \<and> map results_frame rs = map Inr rows
      \<and> S' = S @ subjects \<and> R' = R @ map (\<lambda>r. [r]) rows"
proof (induction rs arbitrary: i S R f)
  case Nil
  then show ?case by simp
next
  case (Cons r rs)
  from Cons.prems obtain s row where s: "subjects_frame r = Inr s" and m: "results_frame r = Inr row"
    by (auto split: sum.splits simp: Let_def)
  from Cons.prems s m obtain f2 where
    "save_folds d (Suc i) rs (S @ [s]) (R @ [[row]]) f2 = (Inr (S', R'), f')"
    by (simp add: Let_def)
  from Cons.IH [OF this] obtain subjects rows where
    "map subjects_frame rs = map Inr subjects" "map results_frame rs = map Inr rows"
    "S' = (S @ [s]) @ subjects" "R' = (R @ [[row]]) @ map (\<lambda>r. [r]) rows"
    by blast
  then show ?case
    using s m by (intro exI [of _ "s # subjects"] exI [of _ "row # rows"]) simp
qed

lemma concat_singletons: "concat (map (\<lambda>r. [r]) rows) = rows"
  by (induction rows) simp_all

lemma write_summary_files:
  "write_summary out S R f = (Inr (), f') \<Longrightarrow>
   S \<noteq> [] \<and> R \<noteq> [] \<and>
   files f' = files f @
     [(path_join out ''subjects.tsv'', Subjects (concat S)),
      (path_join out ''results.tsv'', Results (concat R)),
      (path_join out ''mean_results.tsv'', Results [mean_row (concat R)])]"
  by (auto simp: write_summary_def pd_concat_def to_csv_def Let_def split: if_splits)

lemma subjects_frame_sample:
  "subjects_frame (sample_result t) = Inr (zip (map (\<lambda>_. 1) t) (zip (map (\<lambda>_. 1) t) (map int t)))"
  "subjects_frame (other_result t) = Inr (zip (map (\<lambda>_. 0) t) (zip (map (\<lambda>_. 1) t) (map int t)))"
  by (simp_all add: subjects_frame_def sample_result_def other_result_def getitem_def)

lemma results_frame_sample:
  "results_frame (sample_result t) =
     Inr \<lparr> balanced_accuracy = Fin 1, auc = Fin 1, accuracy = Fin 1, sensitivity = Fin 1,
           specificity = NaN, ppv = Fin 1, npv = NaN \<rparr>"
  "results_frame (other_result t) =
     Inr \<lparr> balanced_accuracy = Fin (1 / 2), auc = Fin (1 / 2), accuracy = Fin 0,
           sensitivity = NaN, specificity = Fin (1 / 2), ppv = Fin 0, npv = NaN \<rparr>"
  by (simp_all add: results_frame_def evaluation_item_def sample_result_def other_result_def
      getitem_def)

lemma kfold_save_sample:
  "fst (kfold_save_results
         ((kfold_cv_init sample_ml)\<lparr>fold_results := Some [sample_result [0], other_result [1]]\<rparr>)
         ''out'' empty_fs) = Inr ()"
  by (simp add: kfold_save_results_def kfold_cv_init_def Let_def subjects_frame_sample
      results_frame_sample write_summary_def pd_concat_def)

lemma save_folds_keeps_files:
  "save_folds d i rs S R f = (res, f') \<Longrightarrow> set (files f) \<subseteq> set (files f')"
proof (induction rs arbitrary: i S R f)
  case Nil
  then show ?case by simp
next
  case (Cons r rs)
  show ?case
  proof (cases "subjects_frame r")
    case (Inl e)
    with Cons.prems show ?thesis by simp
  next
    case s: (Inr s)
    show ?thesis
    proof (cases "results_frame r")
      case (Inl e)
      with Cons.prems s show ?thesis by (auto simp: Let_def to_csv_def)
    next
      case (Inr row)
      let ?f2 = "to_csv (path_join d (''results_fold-'' @ str_nat i @ ''.tsv'')) (Results [row])
          (to_csv (path_join d (''subjects_fold-'' @ str_nat i @ ''.tsv'')) (Subjects s) f)"
      from Cons.prems s Inr have
        rec: "save_folds d (Suc i) rs (S @ [s]) (R @ [[row]]) ?f2 = (res, f')"
        by (simp add: Let_def)
      have "set (files f) \<subseteq> set (files ?f2)"
        by (auto simp: to_csv_def)
      with Cons.IH [OF rec] show ?thesis by blast
    qed
  qed
qed

lemma files_ensure_dir [simp]: "files (ensure_dir d f) = files f"
  by (simp add: ensure_dir_def)

lemma concat_mean_rows: "concat (map (\<lambda>rows. [mean_row rows]) rowss) = map mean_row rowss"
  by (induction rowss) simp_all

lemma save_iterations_rows:
  "save_iterations out i iters S R f = (Inr (S', R'), f') \<Longrightarrow>
   \<exists>rowss. map (map results_frame) iters = map (map Inr) rowss
     \<and> R' = R @ map (\<lambda>rows. [mean_row rows]) rowss
     \<and> (\<forall>k<length rowss.
          (path_join (path_join out (''iteration-'' @ str_nat (i + k))) ''mean_results.tsv'',
           Results [mean_row (rowss ! k)]) \<in> set (files f'))
     \<and> set (files f) \<subseteq> set (files f')"
proof (induction iters arbitrary: i S R f)
  case Nil
  then show ?case by simp
next
  case (Cons folds rest)
  let ?idir = "path_join out (''iteration-'' @ str_nat i)"
  let ?f2 = "ensure_dir (path_join ?idir ''folds'') (ensure_dir ?idir f)"
  from Cons.prems obtain S1 R1 f3 where
    sf: "save_folds (path_join ?idir ''folds'') 0 folds [] [] ?f2 = (Inr (S1, R1), f3)"
    by (auto simp: Let_def split: prod.splits sum.splits)
  from save_folds_rows [OF sf] obtain rows where
    rows: "map results_frame folds = map Inr rows" and R1: "R1 = map (\<lambda>r. [r]) rows"
    by auto
  from Cons.prems sf obtain sdf where c1: "pd_concat S1 = Inr sdf"
    by (auto simp: Let_def split: prod.splits sum.splits)
  from Cons.prems sf c1 have c2: "pd_concat R1 = Inr rows"
    by (auto simp: Let_def R1 pd_concat_def concat_singletons split: prod.splits sum.splits if_splits)
  let ?f6 = "to_csv (path_join ?idir ''mean_results.tsv'') (Results [mean_row rows])
      (to_csv (path_join ?idir ''results.tsv'') (Results rows)
         (to_csv (path_join ?idir ''subjects.tsv'') (Subjects sdf) f3))"
  from Cons.prems sf c1 c2 have rec:
    "save_iterations out (Suc i) rest (S @ [sdf]) (R @ [[mean_row rows]]) ?f6 = (Inr (S', R'), f')"
    by (simp add: Let_def)
  from Cons.IH [OF rec] obtain rowss where
    a: "map (map results_frame) rest = map (map Inr) rowss"
    and b: "R' = (R @ [[mean_row rows]]) @ map (\<lambda>rows. [mean_row rows]) rowss"
    and c: "\<forall>k<length rowss.
          (path_join (path_join out (''iteration-'' @ str_nat (Suc i + k))) ''mean_results.tsv'',
           Results [mean_row (rowss ! k)]) \<in> set (files f')"
    and d: "set (files ?f6) \<subseteq> set (files f')"
    by blast
  have f3: "set (files f) \<subseteq> set (files f3)"
    using save_folds_keeps_files [OF sf] by simp
  have here: "(path_join ?idir ''mean_results.tsv'', Results [mean_row rows]) \<in> set (files f')"
    using d by (auto simp: to_csv_def)
  have mono: "set (files f) \<subseteq> set (files f')"
    using d f3 by (auto simp: to_csv_def)
  have all: "\<forall>k<length (rows # rowss).
          (path_join (path_join out (''iteration-'' @ str_nat (i + k))) ''mean_results.tsv'',
           Results [mean_row ((rows # rowss) ! k)]) \<in> set (files f')"
  proof (intro allI impI)
    fix k assume "k < length (rows # rowss)"
    then show "(path_join (path_join out (''iteration-'' @ str_nat (i + k))) ''mean_results.tsv'',
           Results [mean_row ((rows # rowss) ! k)]) \<in> set (files f')"
      using here c by (cases k) auto
  qed
  show ?case
    using rows a b all mono by (intro exI [of _ "rows # rowss"]) simp
qed

lemma repeated_kfold_two_level:
  assumes "repeated_kfold_save_results self out f = (Inr (), f')"
  shows "\<exists>iters rowss.
     repeated_fold_results self = Some iters
   \<and> map (map results_frame) iters = map (map Inr) rowss
   \<and> (\<forall>k<length rowss.
        (path_join (path_join out (''iteration-'' @ str_nat k)) ''mean_results.tsv'',
         Results [mean_row (rowss ! k)]) \<in> set (files f'))
   \<and> (path_join out ''results.tsv'', Results (map mean_row rowss)) \<in> set (files f')
   \<and> last (files f') = (path_join out ''mean_results.tsv'', Results [mean_row (map mean_row rowss)])
   \<and> (\<forall>m. col m (mean_row (map mean_row rowss))
            = np_nanmean (map (\<lambda>rows. np_nanmean (map (col m) rows)) rowss))"
proof -
  from assms obtain iters where r: "repeated_fold_results self = Some iters"
    by (auto simp: repeated_kfold_save_results_def split: option.splits)
  from assms r obtain S R f1 where
    si: "save_iterations out 0 iters [] [] f = (Inr (S, R), f1)"
    and ws: "write_summary out S R f1 = (Inr (), f')"
    by (auto simp: repeated_kfold_save_results_def split: prod.splits sum.splits)
  from save_iterations_rows [OF si] obtain rowss where
    a: "map (map results_frame) iters = map (map Inr) rowss"
    and b: "R = map (\<lambda>rows. [mean_row rows]) rowss"
    and c: "\<forall>k<length rowss.
          (path_join (path_join out (''iteration-'' @ str_nat k)) ''mean_results.tsv'',
           Results [mean_row (rowss ! k)]) \<in> set (files f1)"
    by auto
  have fl: "files f' = files f1 @
     [(path_join out ''subjects.tsv'', Subjects (concat S)),
      (path_join out ''results.tsv'', Results (map mean_row rowss)),
      (path_join out ''mean_results.tsv'', Results [mean_row (map mean_row rowss)])]"
    using write_summary_files [OF ws] by (simp add: b concat_mean_rows)
  have two: "\<forall>m. col m (mean_row (map mean_row rowss))
            = np_nanmean (map (\<lambda>rows. np_nanmean (map (col m) rows)) rowss)"
    by (simp add: col_mean_row comp_def)
  show ?thesis
    using r a c two by (intro exI [of _ iters] exI [of _ rowss]) (simp add: fl)
qed

lemma save_splits_rows:
  "save_splits out i rs S R f = (Inr (S', R'), f') \<Longrightarrow>
   \<exists>rows. map results_frame rs = map Inr rows
     \<and> R' = R @ map (\<lambda>r. [mean_row [r]]) rows
     \<and> (\<forall>k<length rows.
          (path_join (path_join out (''iteration-'' @ str_nat (i + k))) ''mean_results.tsv'',
           Results [mean_row [rows ! k]]) \<in> set (files f'))
     \<and> set (files f) \<subseteq> set (files f')"
proof (induction rs arbitrary: i S R f)
  case Nil
  then show ?case by simp
next
  case (Cons r rest)
  let ?idir = "path_join out (''iteration-'' @ str_nat i)"
  from Cons.prems obtain sdf where s: "subjects_frame r = Inr sdf"
    by (auto simp: Let_def split: sum.splits)
  from Cons.prems s obtain row where m: "results_frame r = Inr row"
    by (auto simp: Let_def split: sum.splits)
  let ?f4 = "to_csv (path_join ?idir ''mean_results.tsv'') (Results [mean_row [row]])
      (to_csv (path_join ?idir ''results.tsv'') (Results [row])
         (to_csv (path_join ?idir ''subjects.tsv'') (Subjects sdf) (ensure_dir ?idir f)))"
  from Cons.prems s m have rec:
    "save_splits out (Suc i) rest (S @ [sdf]) (R @ [[mean_row [row]]]) ?f4 = (Inr (S', R'), f')"
    by (simp add: Let_def)
  from Cons.IH [OF rec] obtain rows where
    a: "map results_frame rest = map Inr rows"
    and b: "R' = (R @ [[mean_row [row]]]) @ map (\<lambda>r. [mean_row [r]]) rows"
    and c: "\<forall>k<length rows.
          (path_join (path_join out (''iteration-'' @ str_nat (Suc i + k))) ''mean_results.tsv'',
           Results [mean_row [rows ! k]]) \<in> set (files f')"
    and d: "set (files ?f4) \<subseteq> set (files f')"
    by blast
  have here: "(path_join ?idir ''mean_results.tsv'', Results [mean_row [row]]) \<in> set (files f')"
    using d by (auto simp: to_csv_def)
  have mono: "set (files f) \<subseteq> set (files f')"
    using d by (auto simp: to_csv_def)
  have all: "\<forall>k<length (row # rows).
          (path_join (path_join out (''iteration-'' @ str_nat (i + k))) ''mean_results.tsv'',
           Results [mean_row [(row # rows) ! k]]) \<in> set (files f')"
  proof (intro allI impI)
    fix k assume "k < length (row # rows)"
    then show "(path_join (path_join out (''iteration-'' @ str_nat (i + k))) ''mean_results.tsv'',
           Results [mean_row [(row # rows) ! k]]) \<in> set (files f')"
      using here c by (cases k) auto
  qed
  show ?case
    using m a b all mono by (intro exI [of _ "row # rows"]) simp
qed

lemma concat_single_means: "concat (map (\<lambda>r. [mean_row [r]]) rows) = map (\<lambda>r. mean_row [r]) rows"
  by (induction rows) simp_all

lemma repeated_split_two_level:
  assumes "repeated_split_save_results self out f = (Inr (), f')"
  shows "\<exists>splits rows.
     split_results self = Some splits
   \<and> map results_frame splits = map Inr rows
   \<and> (\<forall>k<length rows.
        (path_join (path_join out (''iteration-'' @ str_nat k)) ''mean_results.tsv'',
         Results [mean_row [rows ! k]]) \<in> set (files f'))
   \<and> (path_join out ''results.tsv'', Results (map (\<lambda>r. mean_row [r]) rows)) \<in> set (files f')
   \<and> last (files f')
       = (path_join out ''mean_results.tsv'', Results [mean_row (map (\<lambda>r. mean_row [r]) rows)])"
proof -
  from assms obtain splits where r: "split_results self = Some splits"
    by (auto simp: repeated_split_save_results_def split: option.splits)
  from assms r obtain S R f1 where
    si: "save_splits out 0 splits [] [] f = (Inr (S, R), f1)"
    and ws: "write_summary out S R f1 = (Inr (), f')"
    by (auto simp: repeated_split_save_results_def split: prod.splits sum.splits)
  from save_splits_rows [OF si] obtain rows where
    a: "map results_frame splits = map Inr rows"
    and b: "R = map (\<lambda>r. [mean_row [r]]) rows"
    and c: "\<forall>k<length rows.
          (path_join (path_join out (''iteration-'' @ str_nat k)) ''mean_results.tsv'',
           Results [mean_row [rows ! k]]) \<in> set (files f1)"
    by auto
  have fl: "files f' = files f1 @
     [(path_join out ''subjects.tsv'', Subjects (concat S)),
      (path_join out ''results.tsv'', Results (map (\<lambda>r. mean_row [r]) rows)),
      (path_join out ''mean_results.tsv'', Results [mean_row (map (\<lambda>r. mean_row [r]) rows)])]"
    using write_summary_files [OF ws] by (simp add: b concat_single_means)
  show ?thesis
    using r a c by (intro exI [of _ splits] exI [of _ rows]) (simp add: fl)
qed

lemma repeated_kfold_save_sample:
  "fst (repeated_kfold_save_results
         ((repeated_kfold_cv_init sample_ml)\<lparr>repeated_fold_results := Some two_iterations\<rparr>)
         ''out'' empty_fs) = Inr ()"
  by (simp add: repeated_kfold_save_results_def repeated_kfold_cv_init_def two_iterations_def
      Let_def subjects_frame_sample results_frame_sample write_summary_def pd_concat_def
      split: prod.splits)

lemma repeated_split_save_sample:
  "fst (repeated_split_save_results
         ((repeated_split_init sample_ml 2 (3 / 10))
            \<lparr>split_results := Some [sample_result [0], other_result [1]]\<rparr>)
         ''out'' empty_fs) = Inr ()"
  by (simp add: repeated_split_save_results_def repeated_split_init_def
      Let_def subjects_frame_sample results_frame_sample write_summary_def pd_concat_def
      split: prod.splits)

lemma results_frame_flat:
  "map_of r ''evaluation'' = None \<Longrightarrow> results_frame r = Inl (KeyError ''evaluation'')"
  by (simp add: results_frame_def evaluation_item_def getitem_def)

lemma fold_file_not_summary:
  "path_join (path_join out ''folds'') (''subjects_fold-'' @ x) \<notin> set (summary_paths out)"
  "path_join (path_join out ''folds'') (''results_fold-'' @ x) \<notin> set (summary_paths out)"
  by (auto simp: path_join_def summary_paths_def)

lemma iteration_file_not_summary:
  "y \<in> {''subjects.tsv'', ''results.tsv'', ''mean_results.tsv''} \<Longrightarrow>
   path_join (path_join out (''iteration-'' @ x)) y \<notin> set (summary_paths out)"
  by (auto simp: path_join_def summary_paths_def)

lemma save_folds_writes:
  "save_folds d i rs S R f = (res, f') \<Longrightarrow>
   \<exists>new. files f' = files f @ new
     \<and> (\<forall>p\<in>set (map fst new).
           \<exists>x. p = path_join d (''subjects_fold-'' @ x) \<or> p = path_join d (''results_fold-'' @ x))"
proof (induction rs arbitrary: i S R f)
  case Nil
  then show ?case by simp
next
  case (Cons r rs)
  show ?case
  proof (cases "subjects_frame r")
    case (Inl e)
    with Cons.prems show ?thesis by simp
  next
    case s: (Inr s)
    let ?f1 = "to_csv (path_join d (''subjects_fold-'' @ str_nat i @ ''.tsv'')) (Subjects s) f"
    have f1: "files ?f1 = files f @
        [(path_join d (''subjects_fold-'' @ str_nat i @ ''.tsv''), Subjects s)]"
      by (simp add: to_csv_def)
    show ?thesis
    proof (cases "results_frame r")
      case (Inl e)
      with Cons.prems s have "f' = ?f1" by (simp add: Let_def)
      then show ?thesis using f1 by auto
    next
      case (Inr row)
      let ?f2 = "to_csv (path_join d (''results_fold-'' @ str_nat i @ ''.tsv'')) (Results [row]) ?f1"
      from Cons.prems s Inr have
        rec: "save_folds d (Suc i) rs (S @ [s]) (R @ [[row]]) ?f2 = (res, f')"
        by (simp add: Let_def)
      from Cons.IH [OF rec] obtain new where
        n: "files f' = files ?f2 @ new"
        and p: "\<forall>p\<in>set (map fst new).
           \<exists>x. p = path_join d (''subjects_fold-'' @ x) \<or> p = path_join d (''results_fold-'' @ x)"
        by blast
      have "files f' = files f @
          ((path_join d (''subjects_fold-'' @ str_nat i @ ''.tsv''), Subjects s)
           # (path_join d (''results_fold-'' @ str_nat i @ ''.tsv''), Results [row]) # new)"
        using n by (simp add: to_csv_def)
      moreover have "\<forall>p\<in>set (map fst
          ((path_join d (''subjects_fold-'' @ str_nat i @ ''.tsv''), Subjects s)
           # (path_join d (''results_fold-'' @ str_nat i @ ''.tsv''), Results [row]) # new)).
           \<exists>x. p = path_join d (''subjects_fold-'' @ x) \<or> p = path_join d (''results_fold-'' @ x)"
        using p by auto
      ultimately show ?thesis by blast
    qed
  qed
qed

lemma save_folds_fails:
  "\<forall>p\<in>set pre. (\<exists>s. subjects_frame p = Inr s) \<and> (\<exists>m. results_frame p = Inr m) \<Longrightarrow>
   subjects_frame r = Inr s \<Longrightarrow> results_frame r = Inl e \<Longrightarrow>
   fst (save_folds d i (pre @ r # post) S R f) = Inl e"
  by (induction pre arbitrary: i S R f) (auto simp: Let_def)

lemma save_splits_writes:
  "save_splits out i rs S R f = (res, f') \<Longrightarrow>
   \<exists>new. files f' = files f @ new
     \<and> (\<forall>p\<in>set (map fst new).
           \<exists>x y. y \<in> {''subjects.tsv'', ''results.tsv'', ''mean_results.tsv''}
              \<and> p = path_join (path_join out (''iteration-'' @ x)) y)"
proof (induction rs arbitrary: i S R f)
  case Nil
  then show ?case by simp
next
  case (Cons r rs)
  let ?idir = "path_join out (''iteration-'' @ str_nat i)"
  show ?case
  proof (cases "subjects_frame r")
    case (Inl e)
    with Cons.prems show ?thesis by (auto simp: Let_def)
  next
    case s: (Inr s)
    let ?f2 = "to_csv (path_join ?idir ''subjects.tsv'') (Subjects s) (ensure_dir ?idir f)"
    have f2: "files ?f2 = files f @ [(path_join ?idir ''subjects.tsv'', Subjects s)]"
      by (simp add: to_csv_def)
    show ?thesis
    proof (cases "results_frame r")
      case (Inl e)
      with Cons.prems s have "f' = ?f2" by (simp add: Let_def)
      then show ?thesis using f2 by auto
    next
      case (Inr row)
      let ?f4 = "to_csv (path_join ?idir ''mean_results.tsv'') (Results [mean_row [row]])
          (to_csv (path_join ?idir ''results.tsv'') (Results [row]) ?f2)"
      from Cons.prems s Inr have
        rec: "save_splits out (Suc i) rs (S @ [s]) (R @ [[mean_row [row]]]) ?f4 = (res, f')"
        by (simp add: Let_def)
      from Cons.IH [OF rec] obtain new where
        n: "files f' = files ?f4 @ new"
        and p: "\<forall>p\<in>set (map fst new).
           \<exists>x y. y \<in> {''subjects.tsv'', ''results.tsv'', ''mean_results.tsv''}
              \<and> p = path_join (path_join out (''iteration-'' @ x)) y"
        by blast
      let ?new = "(path_join ?idir ''subjects.tsv'', Subjects s)
           # (path_join ?idir ''results.tsv'', Results [row])
           # (path_join ?idir ''mean_results.tsv'', Results [mean_row [row]]) # new"
      have "files f' = files f @ ?new"
        using n by (simp add: to_csv_def)
      moreover have "\<forall>p\<in>set (map fst ?new).
           \<exists>x y. y \<in> {''subjects.tsv'', ''results.tsv'', ''mean_results.tsv''}
              \<and> p = path_join (path_join out (''iteration-'' @ x)) y"
        using p by auto
      ultimately show ?thesis by blast
    qed
  qed
qed

lemma save_splits_fails:
  "\<forall>p\<in>set pre. (\<exists>s. subjects_frame p = Inr s) \<and> (\<exists>m. results_frame p = Inr m) \<Longrightarrow>
   subjects_frame r = Inr s \<Longrightarrow> results_frame r = Inl e \<Longrightarrow>
   fst (save_splits out i (pre @ r # post) S R f) = Inl e"
  by (induction pre arbitrary: i S R f) (auto simp: Let_def)

lemma kfold_flat_rejected:
  assumes "\<forall>p\<in>set pre. (\<exists>s. subjects_frame p = Inr s) \<and> (\<exists>m. results_frame p = Inr m)"
    and "subjects_frame r = Inr s"
    and "map_of r ''evaluation'' = None"
    and "fold_results kf = Some (pre @ r # post)"
  shows "fst (kfold_save_results kf out f) = Inl (KeyError ''evaluation'')
    \<and> set (map fst (new_files f (snd (kfold_save_results kf out f)))) \<inter> set (summary_paths out) = {}"
proof -
  let ?d = "path_join out ''folds''"
  let ?run = "save_folds ?d 0 (pre @ r # post) [] [] (ensure_dir ?d f)"
  have e: "fst ?run = Inl (KeyError ''evaluation'')"
    using assms(1,2) results_frame_flat [OF assms(3)] by (rule save_folds_fails)
  then have k: "kfold_save_results kf out f = (Inl (KeyError ''evaluation''), snd ?run)"
    using assms(4) by (cases ?run) (simp add: kfold_save_results_def Let_def)
  obtain new where n: "files (snd ?run) = files (ensure_dir ?d f) @ new"
    and p: "\<forall>p\<in>set (map fst new).
           \<exists>x. p = path_join ?d (''subjects_fold-'' @ x) \<or> p = path_join ?d (''results_fold-'' @ x)"
    using save_folds_writes [of ?d 0 "pre @ r # post" "[]" "[]" "ensure_dir ?d f" "fst ?run" "snd ?run"]
    by auto
  have "new_files f (snd ?run) = new"
    using n by (simp add: new_files_def)
  moreover have "set (map fst new) \<inter> set (summary_paths out) = {}"
    using p fold_file_not_summary [of out] by fastforce
  ultimately show ?thesis using k by simp
qed

lemma repeated_split_flat_rejected:
  assumes "\<forall>p\<in>set pre. (\<exists>s. subjects_frame p = Inr s) \<and> (\<exists>m. results_frame p = Inr m)"
    and "subjects_frame r = Inr s"
    and "map_of r ''evaluation'' = None"
    and "split_results rs = Some (pre @ r # post)"
  shows "fst (repeated_split_save_results rs out f) = Inl (KeyError ''evaluation'')
    \<and> set (map fst (new_files f (snd (repeated_split_save_results rs out f))))
        \<inter> set (summary_paths out) = {}"
proof -
  let ?run = "save_splits out 0 (pre @ r # post) [] [] f"
  have e: "fst ?run = Inl (KeyError ''evaluation'')"
    using assms(1,2) results_frame_flat [OF assms(3)] by (rule save_splits_fails)
  then have k: "repeated_split_save_results rs out f = (Inl (KeyError ''evaluation''), snd ?run)"
    using assms(4) by (cases ?run) (simp add: repeated_split_save_results_def)
  obtain new where n: "files (snd ?run) = files f @ new"
    and p: "\<forall>p\<in>set (map fst new).
           \<exists>x y. y \<in> {''subjects.tsv'', ''results.tsv'', ''mean_results.tsv''}
              \<and> p = path_join (path_join out (''iteration-'' @ x)) y"
    using save_splits_writes [of out 0 "pre @ r # post" "[]" "[]" f "fst ?run" "snd ?run"]
    by auto
  have "new_files f (snd ?run) = new"
    using n by (simp add: new_files_def)
  moreover have "set (map fst new) \<inter> set (summary_paths out) = {}"
    using p iteration_file_not_summary [of _ out] by fastforce
  ultimately show ?thesis using k by simp
qed

subsection \<open>The variance estimator\<close>

text \<open>
  C1. With four splits and \<open>test_size = 0.3\<close> the corrected variance should be
  \<open>(1/4 + 0.3/0.7)\<close> times the uncorrected one. The source computes \<open>1/num_split\<close> on two
  \<open>int\<close> values, which is \<open>0\<close> for every \<open>J > 1\<close>: on \<open>four_splits\<close> the uncorrected variance
  is \<open>1/4\<close> and the corrected value returned is \<open>(0 + 0.3/0.7) * 1/4 = 3/28\<close>, not
  \<open>(1/4 + 0.3/0.7) * 1/4 = 19/112\<close>.
\<close>

theorem compute_variance_drops_one_over_J:
  "fst (compute_variance
          ((repeated_split_init sample_ml 4 (3 / 10))\<lparr>split_results := Some four_splits\<rparr>))
     = Inr (Fin (1 / 4), Fin (3 / 28))
   \<and> (1 / 4 + (3 / 10) / (1 - 3 / 10)) * (1 / 4) = (19 / 112 :: real)
   \<and> (19 / 112 :: real) \<noteq> 3 / 28"
  using compute_variance_value [OF _ test_errors_four_splits,
      of "(repeated_split_init sample_ml 4 (3 / 10))\<lparr>split_results := Some four_splits\<rparr>"]
  by (simp add: repeated_split_init_def sample_variance_def power2_eq_square)

text \<open>
  C2. The average test error of a partition should be the exact quotient of the number
  of mismatches by the size of the test set. The source divides two \<open>int\<close> values, so the
  quotient is floored: one mismatch out of ten samples gives \<open>0\<close>, not \<open>0.1\<close>.
\<close>

theorem average_test_error_is_floored:
  "compute_average_test_error [0, 0, 0, 0, 0, 1, 1, 1, 1, 1] [0, 0, 0, 0, 0, 1, 1, 1, 1, 0] = Inr 0
   \<and> split_test_error
       (predictions [0, 0, 0, 0, 0, 1, 1, 1, 1, 1] [0, 0, 0, 0, 0, 1, 1, 1, 1, 0]) = Inr 0"
  by (simp add: compute_average_test_error_def split_test_error_def predictions_def getitem_def)

text \<open>
  C3. The uncorrected variance should be the sample variance, with denominator \<open>J - 1\<close>,
  of the per-partition average test errors. The source takes the variance of what
  \<open>_compute_average_test_error\<close> returns, and that is the floored quotient of C2, which
  is \<open>0\<close> unless every prediction of the partition is wrong: on \<open>mixed_splits\<close>, whose
  average test errors are \<open>1/2\<close>, \<open>1/4\<close>, \<open>0\<close> and \<open>3/4\<close> with sample variance \<open>5/48\<close>,
  \<open>compute_variance\<close> returns \<open>0\<close>.
\<close>

theorem compute_variance_of_floored_errors:
  "fst (compute_variance
          ((repeated_split_init sample_ml 4 (3 / 10))\<lparr>split_results := Some mixed_splits\<rparr>))
     = Inr (Fin 0, Fin 0)
   \<and> [exact_test_error [0, 0, 1, 1] [1, 0, 0, 1], exact_test_error [0, 0, 1, 1] [0, 0, 0, 1],
       exact_test_error [0, 0, 1, 1] [0, 0, 1, 1], exact_test_error [0, 0, 1, 1] [1, 1, 0, 1]]
      = [1 / 2, 1 / 4, 0, 3 / 4]
   \<and> sample_variance [1 / 2, 1 / 4, 0, 3 / 4] = 5 / 48"
  using compute_variance_value [OF _ test_errors_mixed_splits,
      of "(repeated_split_init sample_ml 4 (3 / 10))\<lparr>split_results := Some mixed_splits\<rparr>"]
  by (simp add: repeated_split_init_def sample_variance_def power2_eq_square exact_test_error_def)

subsection \<open>Parallel evaluation\<close>

text \<open>
  C4. On a validator as \<open>__init__\<close> builds it, whatever the order \<open>sched\<close> in which the
  pool's tasks finish (every task finishing), \<open>validate\<close> of \<open>KFoldCV\<close> and of
  \<open>RepeatedSplit\<close> returns a result sequence with one entry per partition, whose
  \<open>i\<close>-th entry is what \<open>evaluate\<close> returned for the \<open>i\<close>-th partition.
\<close>

theorem validate_keeps_partition_order:
  assumes "length splits = n" and "{0..<n} \<subseteq> set sched"
    and "\<forall>i<n. evaluate ml (fst (splits ! i)) (snd (splits ! i)) = Inr (g i)"
    and "apply_best_parameters ml (map g [0..<n]) = Inr (c, p)"
  shows "(2 \<le> n \<longrightarrow>
          (\<exists>rs st. kfold_validate (kfold_cv_init ml) splits n sched = Some (Inr (c, p, rs), st)
             \<and> length rs = n
             \<and> (\<forall>i<n. evaluate ml (fst (splits ! i)) (snd (splits ! i)) = Inr (rs ! i))))
       \<and> (\<exists>rs st. repeated_split_validate (repeated_split_init ml n ts) splits sched
                    = Some (Inr (c, p, rs), st)
             \<and> length rs = n
             \<and> (\<forall>i<n. evaluate ml (fst (splits ! i)) (snd (splits ! i)) = Inr (rs ! i)))"
proof (intro conjI impI)
  assume n2: "2 \<le> n"
  have "kfold_validate (kfold_cv_init ml) splits n sched =
     Some (Inr (c, p, [] @ map g [0..<n]),
           (kfold_cv_init ml)\<lparr>kf_cv := Some splits, fold_results := Some ([] @ map g [0..<n]),
                kf_classifier := Some c, kf_best_params := Some p\<rparr>)"
    using assms by (intro kfold_validate_returns n2) (simp_all add: kfold_cv_init_def)
  then show "\<exists>rs st. kfold_validate (kfold_cv_init ml) splits n sched = Some (Inr (c, p, rs), st)
             \<and> length rs = n
             \<and> (\<forall>i<n. evaluate ml (fst (splits ! i)) (snd (splits ! i)) = Inr (rs ! i))"
    using assms(3) by simp
next
  let ?s = "repeated_split_init ml n ts"
  have n: "n_iterations ?s = n" by (simp add: repeated_split_init_def)
  have "repeated_split_validate ?s splits sched =
     Some (Inr (c, p, [] @ map g [0..<n_iterations ?s]),
           ?s\<lparr>rs_cv := Some splits,
                split_results := Some ([] @ map g [0..<n_iterations ?s]),
                rs_classifier := Some c, rs_best_params := Some p\<rparr>)"
    using assms unfolding n
    by (intro repeated_split_validate_returns [of ?s, unfolded n])
       (simp_all add: repeated_split_init_def)
  then show "\<exists>rs st. repeated_split_validate ?s splits sched = Some (Inr (c, p, rs), st)
             \<and> length rs = n
             \<and> (\<forall>i<n. evaluate ml (fst (splits ! i)) (snd (splits ! i)) = Inr (rs ! i))"
    using assms(3) by (simp add: n)
qed

theorem validate_keeps_partition_order_witness:
  "(\<exists>rs st. kfold_validate (kfold_cv_init sample_ml) (leave_one_out 3) 3 [2, 0, 1]
               = Some (Inr (''svc'', ''C=1'', rs), st)
        \<and> length rs = 3
        \<and> (\<forall>i<3. evaluate sample_ml (fst (leave_one_out 3 ! i)) (snd (leave_one_out 3 ! i))
                    = Inr (rs ! i)))
   \<and> (\<exists>rs st. repeated_split_validate (repeated_split_init sample_ml 3 (3 / 10))
                 (leave_one_out 3) [2, 0, 1]
               = Some (Inr (''svc'', ''C=1'', rs), st)
        \<and> length rs = 3
        \<and> (\<forall>i<3. evaluate sample_ml (fst (leave_one_out 3 ! i)) (snd (leave_one_out 3 ! i))
                    = Inr (rs ! i)))"
proof -
  have len: "length (leave_one_out 3) = 3"
    by (simp add: leave_one_out_def)
  have sched: "{0..<3} \<subseteq> set [2, 0, 1 :: nat]"
    by auto
  have ev: "\<forall>i<3. evaluate sample_ml (fst (leave_one_out 3 ! i)) (snd (leave_one_out 3 ! i))
      = Inr (sample_result (snd (leave_one_out 3 ! i)))"
    by (simp add: eval_sample)
  have best: "apply_best_parameters sample_ml
      (map (\<lambda>i. sample_result (snd (leave_one_out 3 ! i))) [0..<3]) = Inr (''svc'', ''C=1'')"
    by (rule apply_sample)
  show ?thesis
    using validate_keeps_partition_order [OF len sched ev best, of "3 / 10"] by simp
qed

text \<open>
  C6, as stated: the failure that \<open>validate\<close> surfaces should identify the failing
  partition. It does not: a selector failing at partition 2 of 10 and one failing at
  partition 5 of 10 surface the very same failure.
\<close>

theorem validate_failure_carries_no_index:
  "map_option fst (kfold_validate (kfold_cv_init (failing_ml 2)) (leave_one_out 10) 10 [0..<10])
     = Some (Inl (Raised ''boom''))
   \<and> map_option fst (kfold_validate (kfold_cv_init (failing_ml 5)) (leave_one_out 10) 10 [0..<10])
     = Some (Inl (Raised ''boom''))"
  by (simp add: failing_run)

text \<open>
  C6, amended: when \<open>evaluate\<close> raises for some partition, \<open>validate\<close> fails instead of
  returning; it re-raises, unchanged, the exception of the lowest-indexed failing
  partition \<open>k\<close>; no classifier or parameters are set, and the results of the partitions
  before \<open>k\<close> stay appended to the validator's fold results.
\<close>

theorem validate_reraises_first_failure:
  assumes "2 \<le> n" and "n \<le> length splits" and "{0..<n} \<subseteq> set sched"
    and "fold_results self = Some old"
    and "k < n"
    and "\<forall>i<k. evaluate (kf_ml_algorithm self) (fst (splits ! i)) (snd (splits ! i)) = Inr (g i)"
    and "evaluate (kf_ml_algorithm self) (fst (splits ! k)) (snd (splits ! k)) = Inl e"
  shows "kfold_validate self splits n sched =
     Some (Inl e, self\<lparr>kf_cv := Some splits, fold_results := Some (old @ map g [0..<k])\<rparr>)"
  using assms by (rule kfold_validate_raises)

theorem validate_reraises_first_failure_witness:
  "kfold_validate (kfold_cv_init (failing_ml 2)) (leave_one_out 10) 10 [0..<10] =
     Some (Inl (Raised ''boom''),
           (kfold_cv_init (failing_ml 2))
             \<lparr>kf_cv := Some (leave_one_out 10),
              fold_results := Some [sample_result [0], sample_result [1]]\<rparr>)"
proof -
  have 1: "(2::nat) \<le> 10" by simp
  have 2: "10 \<le> length (leave_one_out 10)" by (simp add: leave_one_out_def)
  have 3: "{0..<10} \<subseteq> set [0..<10]" by simp
  have 4: "fold_results (kfold_cv_init (failing_ml 2)) = Some []"
    by (simp add: kfold_cv_init_def)
  have 5: "(2::nat) < 10" by simp
  have 6: "\<forall>i<2. evaluate (kf_ml_algorithm (kfold_cv_init (failing_ml 2)))
       (fst (leave_one_out 10 ! i)) (snd (leave_one_out 10 ! i)) = Inr (sample_result [i])"
    by (simp add: kfold_cv_init_def leave_one_out_nth eval_failing)
  have 7: "evaluate (kf_ml_algorithm (kfold_cv_init (failing_ml 2)))
       (fst (leave_one_out 10 ! 2)) (snd (leave_one_out 10 ! 2)) = Inl (Raised ''boom'')"
    by (simp add: kfold_cv_init_def leave_one_out_nth eval_failing)
  have u: "[0..<2] = [0, 1::nat]" by (simp add: numeral_2_eq_2)
  show ?thesis
    using validate_reraises_first_failure [OF 1 2 3 4 5 6 7] by (simp add: u)
qed

text \<open>
  C9. A second \<open>validate\<close> on the same validator should return only that call's
  results. The source appends to \<open>self._fold_results\<close> without ever clearing it: with
  \<open>n_folds = 2\<close> the second call, on a fresh partition set, returns four results, the
  first two being those of the first call.
\<close>

theorem second_validate_accumulates:
  "\<exists>st1 st2 rs.
     kfold_validate (kfold_cv_init sample_ml) (leave_one_out 2) 2 [0, 1]
       = Some (Inr (''svc'', ''C=1'', [sample_result [0], sample_result [1]]), st1)
   \<and> kfold_validate st1 (rev (leave_one_out 2)) 2 [0, 1] = Some (Inr (''svc'', ''C=1'', rs), st2)
   \<and> rs = [sample_result [0], sample_result [1], sample_result [1], sample_result [0]]
   \<and> length rs = 4"
proof -
  let ?g = "\<lambda>i. sample_result (snd (leave_one_out 2 ! i))"
  let ?h = "\<lambda>i. sample_result (snd (rev (leave_one_out 2) ! i))"
  let ?st0 = "kfold_cv_init sample_ml :: (string, string) kfold_cv"
  let ?st1 = "?st0\<lparr>kf_cv := Some (leave_one_out 2),
      fold_results := Some ([] @ map ?g [0..<2]),
      kf_classifier := Some ''svc'', kf_best_params := Some ''C=1''\<rparr>"
  have s: "{0..<2} \<subseteq> set [0, 1::nat]" by auto
  have a: "kfold_validate ?st0 (leave_one_out 2) 2 [0, 1]
      = Some (Inr (''svc'', ''C=1'', [] @ map ?g [0..<2]), ?st1)"
    by (rule kfold_validate_returns [OF _ _ s])
       (simp_all add: kfold_cv_init_def leave_one_out_def eval_sample apply_sample)
  have b: "kfold_validate ?st1 (rev (leave_one_out 2)) 2 [0, 1]
      = Some (Inr (''svc'', ''C=1'', ([] @ map ?g [0..<2]) @ map ?h [0..<2]),
          ?st1\<lparr>kf_cv := Some (rev (leave_one_out 2)),
             fold_results := Some (([] @ map ?g [0..<2]) @ map ?h [0..<2]),
             kf_classifier := Some ''svc'', kf_best_params := Some ''C=1''\<rparr>)"
    by (rule kfold_validate_returns [OF _ _ s])
       (simp_all add: kfold_cv_init_def leave_one_out_def eval_sample apply_sample)
  have g: "map ?g [0..<2] = [sample_result [0], sample_result [1]]"
    by (simp add: leave_one_out_def numeral_2_eq_2)
  have h: "map ?h [0..<2] = [sample_result [1], sample_result [0]]"
    by (simp add: leave_one_out_def numeral_2_eq_2)
  show ?thesis
    using a b unfolding g h by (intro exI [of _ ?st1] exI) auto
qed


subsection \<open>Saving results\<close>

text \<open>
  C5. \<open>save_results\<close> on a validator on which \<open>validate\<close> never ran should raise the
  no-results \<open>Exception\<close>. The guard tests \<open>is None\<close>, but \<open>__init__\<close> sets the result
  list to \<open>[]\<close>, so the guard never fires: \<open>KFoldCV.save_results\<close> creates the \<open>folds\<close>
  directory and then fails in \<open>pd.concat([])\<close> with a \<open>ValueError\<close>, and the two repeated
  validators fail in the same \<open>pd.concat([])\<close>.
\<close>

theorem save_results_before_validate:
  "kfold_save_results (kfold_cv_init sample_ml) ''out'' empty_fs
     = (Inl (ValueError ''No objects to concatenate''), \<lparr> dirs = [''out/folds''], files = [] \<rparr>)
   \<and> repeated_kfold_save_results (repeated_kfold_cv_init sample_ml) ''out'' empty_fs
     = (Inl (ValueError ''No objects to concatenate''), empty_fs)
   \<and> repeated_split_save_results (repeated_split_init sample_ml 100 (3 / 10)) ''out'' empty_fs
     = (Inl (ValueError ''No objects to concatenate''), empty_fs)"
  by (simp add: kfold_save_results_def kfold_cv_init_def repeated_kfold_save_results_def
      repeated_kfold_cv_init_def repeated_split_save_results_def repeated_split_init_def
      write_summary_def pd_concat_def empty_fs_def path_join_def ensure_dir_def path_exists_def)

text \<open>
  C7. When \<open>KFoldCV.save_results\<close> succeeds, \<open>results.tsv\<close> holds one metrics row per fold
  result and the last file written, \<open>mean_results.tsv\<close>, holds one row; in every column
  with at least one entry that is not NaN, that row holds the arithmetic mean of the
  entries that are not NaN.
\<close>

theorem mean_results_skip_missing:
  assumes "kfold_save_results self out f = (Inr (), f')"
  shows "\<exists>results rows mean.
     fold_results self = Some results
   \<and> map results_frame results = map Inr rows
   \<and> (path_join out ''results.tsv'', Results rows) \<in> set (files f')
   \<and> last (files f') = (path_join out ''mean_results.tsv'', Results [mean])
   \<and> (\<forall>m. non_missing (map (col m) rows) \<noteq> [] \<longrightarrow>
          col m mean = Fin (sum_list (non_missing (map (col m) rows))
                            / real (length (non_missing (map (col m) rows)))))"
proof -
  from assms obtain results where r: "fold_results self = Some results"
    by (auto simp: kfold_save_results_def split: option.splits)
  from assms r obtain S R f2 where
    sf: "save_folds (path_join out ''folds'') 0 results [] []
           (ensure_dir (path_join out ''folds'') f) = (Inr (S, R), f2)"
    and ws: "write_summary out S R f2 = (Inr (), f')"
    by (auto simp: kfold_save_results_def Let_def split: prod.splits sum.splits)
  from save_folds_rows [OF sf] obtain rows where
    rows: "map results_frame results = map Inr rows" and R: "R = map (\<lambda>r. [r]) rows"
    by auto
  have fl: "files f' = files f2 @
     [(path_join out ''subjects.tsv'', Subjects (concat S)),
      (path_join out ''results.tsv'', Results rows),
      (path_join out ''mean_results.tsv'', Results [mean_row rows])]"
    using write_summary_files [OF ws] by (simp add: R concat_singletons)
  show ?thesis
    using r rows fl by (auto simp: col_mean_row np_nanmean_skips)
qed

theorem mean_results_skip_missing_witness:
  "\<exists>mean.
     last (files (snd (kfold_save_results
         ((kfold_cv_init sample_ml)\<lparr>fold_results := Some [sample_result [0], other_result [1]]\<rparr>)
         ''out'' empty_fs)))
       = (path_join ''out'' ''mean_results.tsv'', Results [mean])
   \<and> col Specificity mean = Fin (1 / 2) \<and> col Auc mean = Fin (3 / 4)"
proof -
  let ?st = "(kfold_cv_init sample_ml)\<lparr>fold_results := Some [sample_result [0], other_result [1]]\<rparr>
      :: (string, string) kfold_cv"
  have run: "kfold_save_results ?st ''out'' empty_fs
      = (Inr (), snd (kfold_save_results ?st ''out'' empty_fs))"
    using kfold_save_sample by (metis prod.collapse)
  from mean_results_skip_missing [OF run] obtain results rows mean where
    r: "fold_results ?st = Some results"
    and rows: "map results_frame results = map Inr rows"
    and l: "last (files (snd (kfold_save_results ?st ''out'' empty_fs)))
         = (path_join ''out'' ''mean_results.tsv'', Results [mean])"
    and m: "\<forall>m. non_missing (map (col m) rows) \<noteq> [] \<longrightarrow>
          col m mean = Fin (sum_list (non_missing (map (col m) rows))
                            / real (length (non_missing (map (col m) rows))))"
    by blast
  from r have "results = [sample_result [0], other_result [1]]"
    by (simp add: kfold_cv_init_def)
  with rows have rows': "rows =
     [\<lparr> balanced_accuracy = Fin 1, auc = Fin 1, accuracy = Fin 1, sensitivity = Fin 1,
         specificity = NaN, ppv = Fin 1, npv = NaN \<rparr>,
      \<lparr> balanced_accuracy = Fin (1 / 2), auc = Fin (1 / 2), accuracy = Fin 0,
         sensitivity = NaN, specificity = Fin (1 / 2), ppv = Fin 0, npv = NaN \<rparr>]"
    by (auto simp: results_frame_sample map_eq_Cons_conv)
  have "col Specificity mean = Fin (1 / 2)"
    using m [rule_format, of Specificity] by (simp add: rows')
  moreover have "col Auc mean = Fin (3 / 4)"
    using m [rule_format, of Auc] by (simp add: rows')
  ultimately show ?thesis using l by blast
qed


text \<open>
  C8. When \<open>save_results\<close> of a repeated scheme succeeds, each iteration's
  \<open>mean_results.tsv\<close> holds \<open>mean_row\<close> of that iteration's metrics rows (for
  \<open>RepeatedSplit\<close> the one row of the split), the outer \<open>results.tsv\<close> is the list of
  these per-iteration mean rows, one per iteration and in order, and the outer
  \<open>mean_results.tsv\<close>, written last, holds \<open>mean_row\<close> of that list: column by column,
  \<open>np.nanmean\<close> of the per-iteration \<open>np.nanmean\<close>s.
\<close>

theorem repeated_aggregation_two_level:
  "(repeated_kfold_save_results rk out f = (Inr (), f') \<longrightarrow>
      (\<exists>iters rowss.
         repeated_fold_results rk = Some iters
       \<and> map (map results_frame) iters = map (map Inr) rowss
       \<and> (\<forall>k<length rowss.
            (path_join (path_join out (''iteration-'' @ str_nat k)) ''mean_results.tsv'',
             Results [mean_row (rowss ! k)]) \<in> set (files f'))
       \<and> (path_join out ''results.tsv'', Results (map mean_row rowss)) \<in> set (files f')
       \<and> last (files f')
           = (path_join out ''mean_results.tsv'', Results [mean_row (map mean_row rowss)])
       \<and> (\<forall>m. col m (mean_row (map mean_row rowss))
                = np_nanmean (map (\<lambda>rows. np_nanmean (map (col m) rows)) rowss))))
 \<and> (repeated_split_save_results rs out g = (Inr (), g') \<longrightarrow>
      (\<exists>splits rows.
         split_results rs = Some splits
       \<and> map results_frame splits = map Inr rows
       \<and> (\<forall>k<length rows.
            (path_join (path_join out (''iteration-'' @ str_nat k)) ''mean_results.tsv'',
             Results [mean_row [rows ! k]]) \<in> set (files g'))
       \<and> (path_join out ''results.tsv'', Results (map (\<lambda>r. mean_row [r]) rows)) \<in> set (files g')
       \<and> last (files g')
           = (path_join out ''mean_results.tsv'',
              Results [mean_row (map (\<lambda>r. mean_row [r]) rows)])))"
  using repeated_kfold_two_level [of rk out f f'] repeated_split_two_level [of rs out g g']
  by blast

theorem repeated_aggregation_two_level_witness:
  "(\<exists>rowss. length rowss = 2
      \<and> last (files (snd (repeated_kfold_save_results sample_repeated_kfold ''out'' empty_fs)))
          = (path_join ''out'' ''mean_results.tsv'', Results [mean_row (map mean_row rowss)]))
   \<and> (\<exists>rows. length rows = 2
      \<and> last (files (snd (repeated_split_save_results sample_repeated_split ''out'' empty_fs)))
          = (path_join ''out'' ''mean_results.tsv'',
             Results [mean_row (map (\<lambda>r. mean_row [r]) rows)]))"
proof -
  let ?k = "repeated_kfold_save_results sample_repeated_kfold ''out'' empty_fs"
  let ?s = "repeated_split_save_results sample_repeated_split ''out'' empty_fs"
  have k: "?k = (Inr (), snd ?k)"
    using repeated_kfold_save_sample by (metis prod.collapse sample_repeated_kfold_def)
  have s: "?s = (Inr (), snd ?s)"
    using repeated_split_save_sample by (metis prod.collapse sample_repeated_split_def)
  note t = repeated_aggregation_two_level [of sample_repeated_kfold "''out''" empty_fs "snd ?k"
      sample_repeated_split empty_fs "snd ?s"]
  from t k obtain iters rowss where
    "repeated_fold_results sample_repeated_kfold = Some iters"
    "map (map results_frame) iters = map (map Inr) rowss"
    "last (files (snd ?k))
       = (path_join ''out'' ''mean_results.tsv'', Results [mean_row (map mean_row rowss)])"
    by blast
  moreover from this have "length rowss = 2"
    by (auto simp: sample_repeated_kfold_def repeated_kfold_cv_init_def two_iterations_def
        dest!: arg_cong [where f = length])
  moreover from t s obtain splits rows where
    "split_results sample_repeated_split = Some splits"
    "map results_frame splits = map Inr rows"
    "last (files (snd ?s))
       = (path_join ''out'' ''mean_results.tsv'',
          Results [mean_row (map (\<lambda>r. mean_row [r]) rows)])"
    by blast
  moreover from this have "length rows = 2"
    by (auto simp: sample_repeated_split_def repeated_split_init_def
        dest!: arg_cong [where f = length])
  ultimately show ?thesis by blast
qed

text \<open>
  C10. When a fold result has its labels in place but no \<open>evaluation\<close> key, and the
  fold results before it are well formed, \<open>save_results\<close> of \<open>KFoldCV\<close> and of
  \<open>RepeatedSplit\<close> fails with \<open>KeyError('evaluation')\<close>, and none of the files written
  until then is one of the three tables of the output directory.
\<close>

theorem flat_fold_result_is_rejected:
  assumes "\<forall>p\<in>set pre. (\<exists>s. subjects_frame p = Inr s) \<and> (\<exists>m. results_frame p = Inr m)"
    and "subjects_frame r = Inr s"
    and "map_of r ''evaluation'' = None"
  shows "(fold_results kf = Some (pre @ r # post) \<longrightarrow>
            fst (kfold_save_results kf out f) = Inl (KeyError ''evaluation'')
          \<and> set (map fst (new_files f (snd (kfold_save_results kf out f))))
              \<inter> set (summary_paths out) = {})
       \<and> (split_results rs = Some (pre @ r # post) \<longrightarrow>
            fst (repeated_split_save_results rs out f) = Inl (KeyError ''evaluation'')
          \<and> set (map fst (new_files f (snd (repeated_split_save_results rs out f))))
              \<inter> set (summary_paths out) = {})"
  using kfold_flat_rejected [OF assms] repeated_split_flat_rejected [OF assms] by blast

theorem flat_fold_result_is_rejected_witness:
  "fst (kfold_save_results
         ((kfold_cv_init sample_ml)
            \<lparr>fold_results := Some [sample_result [0], flat_result [1], other_result [2]]\<rparr>)
         ''out'' empty_fs) = Inl (KeyError ''evaluation'')
   \<and> set (map fst (new_files empty_fs (snd (kfold_save_results
         ((kfold_cv_init sample_ml)
            \<lparr>fold_results := Some [sample_result [0], flat_result [1], other_result [2]]\<rparr>)
         ''out'' empty_fs)))) \<inter> set (summary_paths ''out'') = {}
   \<and> fst (repeated_split_save_results
         ((repeated_split_init sample_ml 3 (3 / 10))
            \<lparr>split_results := Some [sample_result [0], flat_result [1], other_result [2]]\<rparr>)
         ''out'' empty_fs) = Inl (KeyError ''evaluation'')"
proof -
  have pre: "\<forall>p\<in>set [sample_result [0]].
      (\<exists>s. subjects_frame p = Inr s) \<and> (\<exists>m. results_frame p = Inr m)"
    by (simp add: subjects_frame_sample results_frame_sample)
  have s: "subjects_frame (flat_result [1]) = Inr [(1, 1, 1)]"
    by (simp add: subjects_frame_def flat_result_def getitem_def)
  have flat: "map_of (flat_result [1]) ''evaluation'' = None"
    by (simp add: flat_result_def)
  show ?thesis
    using flat_fold_result_is_rejected [OF pre s flat,
        of "(kfold_cv_init sample_ml)
              \<lparr>fold_results := Some [sample_result [0], flat_result [1], other_result [2]]\<rparr>"
           "[other_result [2]]" "''out''" empty_fs
           "(repeated_split_init sample_ml 3 (3 / 10))
              \<lparr>split_results := Some [sample_result [0], flat_result [1], other_result [2]]\<rparr>"]
    by (simp add: kfold_cv_init_def repeated_split_init_def)
qed

end
